theory Spec2Isabelle
  imports Complex_Main
begin

section \<open>Python values\<close>

text \<open>
  A Python \<open>str\<close> is a sequence of Unicode code points, and \<open>len\<close> counts code
  points. A string value is therefore a list of code points; \<open>str\<close> reads an ASCII
  literal of the source as such a list. Dictionary keys and attribute names are always
  literals of the source and are kept as HOL strings. \<open>PObj\<close> is an object of a
  class without \<open>__bool__\<close> or \<open>__len__\<close>, given by its attributes.
\<close>

type_synonym codepoint = nat
type_synonym pystr = "codepoint list"

definition str :: "string \<Rightarrow> pystr" where
  "str s = map of_char s"

datatype pyval =
    PNone
  | PBool bool
  | PInt int
  | PFloat real
  | PStr pystr
  | PBytes "nat list"
  | PList "pyval list"
  | PDict "(string \<times> pyval) list"
  | PObj "(string \<times> pyval) list"

text \<open>Python's truth value of an object, as \<open>not x\<close> and \<open>if x\<close> test it.\<close>

fun truthy :: "pyval \<Rightarrow> bool" where
  "truthy PNone = False"
| "truthy (PBool b) = b"
| "truthy (PInt i) = (i \<noteq> 0)"
| "truthy (PFloat x) = (x \<noteq> 0)"
| "truthy (PStr s) = (s \<noteq> [])"
| "truthy (PBytes bs) = (bs \<noteq> [])"
| "truthy (PList xs) = (xs \<noteq> [])"
| "truthy (PDict kvs) = (kvs \<noteq> [])"
| "truthy (PObj attrs) = True"

fun isinstance_str :: "pyval \<Rightarrow> bool" where
  "isinstance_str (PStr s) = True"
| "isinstance_str v = False"

section \<open>Input validators (utils/validators.py)\<close>

text \<open>
  \<open>str.isalnum\<close> is Unicode aware: a character counts when it is a letter, a decimal,
  a digit or a numeric character of the Unicode database. Below U+0100 the table is
  written out (CPython 3.11); above, the database is a parameter \<open>ucd\<close> of the model.
\<close>

definition latin1_isalnum :: "codepoint \<Rightarrow> bool" where
  "latin1_isalnum c =
     ((48 \<le> c \<and> c \<le> 57) \<or> (65 \<le> c \<and> c \<le> 90) \<or> (97 \<le> c \<and> c \<le> 122)
      \<or> c = 170 \<or> c = 178 \<or> c = 179 \<or> c = 181 \<or> c = 185 \<or> c = 186
      \<or> c = 188 \<or> c = 189 \<or> c = 190
      \<or> (192 \<le> c \<and> c \<le> 214) \<or> (216 \<le> c \<and> c \<le> 246) \<or> (248 \<le> c \<and> c \<le> 255))"

definition isalnum_cp :: "(codepoint \<Rightarrow> bool) \<Rightarrow> codepoint \<Rightarrow> bool" where
  "isalnum_cp ucd c = (if c < 256 then latin1_isalnum c else ucd c)"

text \<open>\<open>s.isalnum()\<close>: every character is alphanumeric and there is at least one.\<close>

definition isalnum :: "(codepoint \<Rightarrow> bool) \<Rightarrow> pystr \<Rightarrow> bool" where
  "isalnum ucd s = (s \<noteq> [] \<and> list_all (isalnum_cp ucd) s)"

text \<open>\<open>s.replace(old, new)\<close> for a one-character \<open>old\<close>.\<close>

definition replace :: "codepoint \<Rightarrow> pystr \<Rightarrow> pystr \<Rightarrow> pystr" where
  "replace old new s = concat (map (\<lambda>c. if c = old then new else [c]) s)"

definition hyphen :: codepoint where
  "hyphen = 45"

definition underscore :: codepoint where
  "underscore = 95"

text \<open>
  \<^verbatim>\<open>
  def validate_session_id(session_id: str) -> bool:
      if not session_id or not isinstance(session_id, str):
          return False
      return len(session_id) > 5 and session_id.replace('-', '').replace('_', '').isalnum()
  \<close>
\<close>

fun validate_session_id :: "(codepoint \<Rightarrow> bool) \<Rightarrow> pyval \<Rightarrow> bool" where
  "validate_session_id ucd (PStr s) =
     (if s = [] then False
      else length s > 5 \<and> isalnum ucd (replace underscore [] (replace hyphen [] s)))"
| "validate_session_id ucd v = False"

text \<open>The character class \<open>[A-Za-z0-9_-]\<close> of the specification.\<close>

definition ascii_id_char :: "codepoint \<Rightarrow> bool" where
  "ascii_id_char c =
     ((65 \<le> c \<and> c \<le> 90) \<or> (97 \<le> c \<and> c \<le> 122) \<or> (48 \<le> c \<and> c \<le> 57)
      \<or> c = underscore \<or> c = hyphen)"

text \<open>A sample Unicode table for concrete evaluations: nothing above U+00FF counts.\<close>

definition no_wide_alnum :: "codepoint \<Rightarrow> bool" where
  "no_wide_alnum c = False"

section \<open>Exceptions, the remote SDK and the effects of a call\<close>

text \<open>
  Every exception modelled is a subclass of \<open>Exception\<close>; the client only tells
  \<open>AgentBayError\<close> from the rest. \<open>exn_str\<close> is \<open>str(e)\<close>, the message.
\<close>

datatype exn =
    AgentBayError pystr
  | AttributeError pystr
  | TypeError pystr
  | KeyError pystr
  | ImportError pystr
  | TimeoutError pystr
  | Exception pystr

fun exn_str :: "exn \<Rightarrow> pystr" where
  "exn_str (AgentBayError m) = m"
| "exn_str (AttributeError m) = m"
| "exn_str (TypeError m) = m"
| "exn_str (KeyError m) = m"
| "exn_str (ImportError m) = m"
| "exn_str (TimeoutError m) = m"
| "exn_str (Exception m) = m"

text \<open>
  A result object of the SDK: \<open>success\<close> and \<open>error_message\<close>, which every result
  class declares, and its other attributes by name (\<open>data\<close>, \<open>output\<close>,
  \<open>session_ids\<close>, ...), which the client reads with plain attribute access,
  \<open>hasattr\<close> or \<open>getattr\<close> with a default.
\<close>

record sdk_result =
  r_success :: bool
  r_error_message :: "pystr option"
  r_attrs :: "(string \<times> pyval) list"

definition no_attribute :: "string \<Rightarrow> exn" where
  "no_attribute name = AttributeError (str ''object has no attribute '' @ str name)"

definition hasattr :: "sdk_result \<Rightarrow> string \<Rightarrow> bool" where
  "hasattr r name = (map_of (r_attrs r) name \<noteq> None)"

definition getattr :: "sdk_result \<Rightarrow> string \<Rightarrow> exn + pyval" where
  "getattr r name =
     (case map_of (r_attrs r) name of None \<Rightarrow> Inl (no_attribute name) | Some v \<Rightarrow> Inr v)"

definition getattr_default :: "sdk_result \<Rightarrow> string \<Rightarrow> pyval \<Rightarrow> pyval" where
  "getattr_default r name d = (case map_of (r_attrs r) name of None \<Rightarrow> d | Some v \<Rightarrow> v)"

text \<open>Attribute access on a value: only an object has attributes of its own.\<close>

fun attr :: "pyval \<Rightarrow> string \<Rightarrow> exn + pyval" where
  "attr (PObj attrs) name =
     (case map_of attrs name of None \<Rightarrow> Inl (no_attribute name) | Some v \<Rightarrow> Inr v)"
| "attr v name = Inl (no_attribute name)"

text \<open>\<open>len(x)\<close>, \<open>x >= y\<close> for an integer \<open>x\<close>, and the elements \<open>list.extend\<close> takes from \<open>x\<close>.\<close>

fun py_len :: "pyval \<Rightarrow> exn + int" where
  "py_len (PStr s) = Inr (int (length s))"
| "py_len (PBytes bs) = Inr (int (length bs))"
| "py_len (PList xs) = Inr (int (length xs))"
| "py_len (PDict kvs) = Inr (int (length kvs))"
| "py_len v = Inl (TypeError (str ''object has no len()''))"

fun int_ge :: "int \<Rightarrow> pyval \<Rightarrow> exn + bool" where
  "int_ge n (PInt m) = Inr (n \<ge> m)"
| "int_ge n (PBool b) = Inr (n \<ge> (if b then 1 else 0))"
| "int_ge n (PFloat x) = Inr (real_of_int n \<ge> x)"
| "int_ge n v = Inl (TypeError (str ''>= not supported between these instances''))"

fun py_iter :: "pyval \<Rightarrow> exn + pyval list" where
  "py_iter (PList xs) = Inr xs"
| "py_iter (PStr s) = Inr (map (\<lambda>c. PStr [c]) s)"
| "py_iter (PBytes bs) = Inr (map (\<lambda>b. PInt (int b)) bs)"
| "py_iter (PDict kvs) = Inr (map (\<lambda>kv. PStr (str (fst kv))) kvs)"
| "py_iter v = Inl (TypeError (str ''object is not iterable''))"

text \<open>
  The calls the client issues to the SDK, with their arguments. A session handle is the
  value the SDK gave (or the client built) for it.
\<close>

datatype call =
    NewAgentBay pystr
  | Create pystr "(pystr \<times> pystr) list"
  | GetSession pystr
  | Get pystr
  | Delete pyval bool
  | ListSessions "(pystr \<times> pystr) list" int int
  | ExecuteCommand pyval pystr int
  | ReadFile pyval pystr
  | WriteFile pyval pystr pystr
  | ListDirectory pyval pystr
  | RunCode pyval pystr pystr
  | UiScreenshot pyval
  | UiClick pyval int int
  | UiType pyval pystr
  | UiKey pyval pystr
  | BrowserInitialize pyval
  | GetEndpointUrl pyval
  | GetInstalledApps pyval bool bool bool
  | ListWindows pyval

text \<open>
  The SDK and the service behind it are not part of the repository: they are a
  parameter of the model. A backend answers each call from a state \<open>'s\<close> of its own,
  either by raising or by returning, and moves to a new state. \<open>sdk_new\<close> is the
  constructor \<open>AgentBay(api_key=...)\<close>, \<open>sdk_call\<close> the methods that return a result
  object, \<open>sdk_value\<close> those that return a plain value (\<open>browser.initialize\<close>,
  \<open>browser.get_endpoint_url\<close>).
\<close>

record 's backend =
  sdk_new :: "pystr \<Rightarrow> 's \<Rightarrow> (exn + unit) \<times> 's"
  sdk_call :: "call \<Rightarrow> 's \<Rightarrow> (exn + sdk_result) \<times> 's"
  sdk_value :: "call \<Rightarrow> 's \<Rightarrow> (exn + pyval) \<times> 's"

text \<open>
  The world a client method runs in: the state of the service, whether the client
  object already holds its SDK instance (\<open>self._client is not None\<close>), and the calls
  issued so far, oldest first, each with the exception it raised, if any.
\<close>

record 's world =
  remote_state :: 's
  client_built :: bool
  trace :: "(call \<times> exn option) list"

type_synonym ('s, 'a) py = "'s world \<Rightarrow> (exn + 'a) \<times> 's world"

definition py_return :: "'a \<Rightarrow> ('s, 'a) py" where
  "py_return x = (\<lambda>w. (Inr x, w))"

definition py_raise :: "exn \<Rightarrow> ('s, 'a) py" where
  "py_raise e = (\<lambda>w. (Inl e, w))"

definition py_bind :: "('s, 'a) py \<Rightarrow> ('a \<Rightarrow> ('s, 'b) py) \<Rightarrow> ('s, 'b) py" where
  "py_bind m f = (\<lambda>w. case m w of (Inl e, w') \<Rightarrow> (Inl e, w') | (Inr x, w') \<Rightarrow> f x w')"

text \<open>\<open>try: m except Exception as e: h e\<close>.\<close>

definition try_except :: "('s, 'a) py \<Rightarrow> (exn \<Rightarrow> ('s, 'a) py) \<Rightarrow> ('s, 'a) py" where
  "try_except m h = (\<lambda>w. case m w of (Inl e, w') \<Rightarrow> h e w' | (Inr x, w') \<Rightarrow> (Inr x, w'))"

text \<open>A computation of the client's own, which touches nothing remote.\<close>

definition pure :: "exn + 'a \<Rightarrow> ('s, 'a) py" where
  "pure v = (case v of Inl e \<Rightarrow> py_raise e | Inr x \<Rightarrow> py_return x)"

definition raised :: "exn + 'a \<Rightarrow> exn option" where
  "raised v = (case v of Inl e \<Rightarrow> Some e | Inr x \<Rightarrow> None)"

definition record_call :: "call \<Rightarrow> (exn + 'a) \<times> 's \<Rightarrow> 's world \<Rightarrow> (exn + 'a) \<times> 's world" where
  "record_call c out w =
     (fst out, w\<lparr>remote_state := snd out, trace := trace w @ [(c, raised (fst out))]\<rparr>)"

definition remote :: "'s backend \<Rightarrow> call \<Rightarrow> ('s, sdk_result) py" where
  "remote be c = (\<lambda>w. record_call c (sdk_call be c (remote_state w)) w)"

definition remote_value :: "'s backend \<Rightarrow> call \<Rightarrow> ('s, pyval) py" where
  "remote_value be c = (\<lambda>w. record_call c (sdk_value be c (remote_state w)) w)"

text \<open>
  \<^verbatim>\<open>
  @property
  def client(self) -> AgentBay:
      if self._client is None:
          self._client = AgentBay(api_key=self.api_key)
      return self._client
  \<close>
\<close>

definition client :: "'s backend \<Rightarrow> pystr \<Rightarrow> ('s, unit) py" where
  "client be api_key =
     (\<lambda>w. if client_built w then (Inr (), w)
          else (case record_call (NewAgentBay api_key) (sdk_new be api_key (remote_state w)) w of
                  (Inl e, w') \<Rightarrow> (Inl e, w')
                | (Inr u, w') \<Rightarrow> (Inr (), w'\<lparr>client_built := True\<rparr>)))"

text \<open>A method of the SDK instance: \<open>self.client.method(...)\<close>.\<close>

definition client_call :: "'s backend \<Rightarrow> pystr \<Rightarrow> call \<Rightarrow> ('s, sdk_result) py" where
  "client_call be api_key c = py_bind (client be api_key) (\<lambda>u. remote be c)"

text \<open>
  A method of a session handle, \<open>session.part.method(...)\<close>: a handle that is not an
  object (\<open>None\<close>, when the SDK found no session) has no such attribute.
\<close>

fun is_object :: "pyval \<Rightarrow> bool" where
  "is_object (PObj attrs) = True"
| "is_object v = False"

definition session_call :: "'s backend \<Rightarrow> pyval \<Rightarrow> string \<Rightarrow> call \<Rightarrow> ('s, sdk_result) py" where
  "session_call be session part c =
     (if is_object session then remote be c else py_raise (no_attribute part))"

definition session_value :: "'s backend \<Rightarrow> pyval \<Rightarrow> string \<Rightarrow> call \<Rightarrow> ('s, pyval) py" where
  "session_value be session part c =
     (if is_object session then remote_value be c else py_raise (no_attribute part))"

text \<open>\<open>Session(self.client, session_id)\<close>: a handle built from the id alone.\<close>

definition Session :: "'s backend \<Rightarrow> pystr \<Rightarrow> pystr \<Rightarrow> ('s, pyval) py" where
  "Session be api_key session_id =
     py_bind (client be api_key) (\<lambda>u. py_return (PObj [(''session_id'', PStr session_id)]))"

text \<open>\<open>self.client.get(session_id).session\<close>.\<close>

definition get_session_handle :: "'s backend \<Rightarrow> pystr \<Rightarrow> pystr \<Rightarrow> ('s, pyval) py" where
  "get_session_handle be api_key session_id =
     py_bind (client_call be api_key (Get session_id)) (\<lambda>g. pure (getattr g ''session''))"

section \<open>The stateless client (utils/agentbay\_client.py)\<close>

text \<open>
  The result envelope, a dataclass with \<open>data\<close> and \<open>error\<close> defaulting to \<open>None\<close>.
  Logging has no effect on a result and is left out of the model.
\<close>

record simple_result =
  success :: bool
  data :: pyval
  error :: "pystr option"

definition SimpleResult :: "bool \<Rightarrow> pyval \<Rightarrow> pystr option \<Rightarrow> simple_result" where
  "SimpleResult s d e = \<lparr>success = s, data = d, error = e\<rparr>"

text \<open>\<open>SimpleResult(success=False, error=msg)\<close>.\<close>

definition failure :: "pystr \<Rightarrow> simple_result" where
  "failure msg = SimpleResult False PNone (Some msg)"

text \<open>An optional string inside an f-string: \<open>None\<close> prints as \<open>None\<close>.\<close>

definition format_opt :: "pystr option \<Rightarrow> pystr" where
  "format_opt m = (case m of None \<Rightarrow> str ''None'' | Some s \<Rightarrow> s)"

text \<open>Sequencing of the client's own computations, which may raise.\<close>

definition and_then :: "exn + 'a \<Rightarrow> ('a \<Rightarrow> exn + 'b) \<Rightarrow> exn + 'b" where
  "and_then v f = (case v of Inl e \<Rightarrow> Inl e | Inr x \<Rightarrow> f x)"

text \<open>
  \<open>SimpleResult(success=result.success, data=d if result.success else None,
  error=result.error_message if not result.success else None)\<close>, the closing statement of
  most methods; \<open>d\<close> is evaluated only on success and may raise.
\<close>

definition result_envelope :: "sdk_result \<Rightarrow> (exn + pyval) \<Rightarrow> ('s, simple_result) py" where
  "result_envelope result d =
     py_bind (pure (if r_success result then d else Inr PNone)) (\<lambda>payload.
       py_return (SimpleResult (r_success result) payload
                    (if \<not> r_success result then r_error_message result else None)))"

definition dify_labels :: "(pystr \<times> pystr) list" where
  "dify_labels = [(str ''dify_plugin'', str ''true'')]"

definition create_session :: "'s backend \<Rightarrow> pystr \<Rightarrow> pystr \<Rightarrow> ('s, simple_result) py" where
  "create_session be api_key image_id =
     try_except
       (py_bind (client_call be api_key (Create image_id dify_labels)) (\<lambda>result.
          if r_success result then
            py_bind (pure (getattr result ''session'')) (\<lambda>session.
            py_bind (pure (attr session ''session_id'')) (\<lambda>session_id.
            py_bind (pure (getattr result ''request_id'')) (\<lambda>request_id.
            py_bind (pure (attr session ''resource_url'')) (\<lambda>resource_url.
              py_return (SimpleResult True
                (PDict [(''session_id'', session_id), (''image_id'', PStr image_id),
                        (''status'', PStr (str ''created'')), (''request_id'', request_id),
                        (''resource_url'', resource_url)]) None)))))
          else py_return (SimpleResult False PNone (r_error_message result))))
       (\<lambda>e. case e of
          AgentBayError m \<Rightarrow> py_return (failure (str ''AgentBay API error: '' @ m))
        | _ \<Rightarrow> py_return (failure (str ''Unknown error: '' @ exn_str e)))"

definition get_session_info :: "'s backend \<Rightarrow> pystr \<Rightarrow> pystr \<Rightarrow> ('s, simple_result) py" where
  "get_session_info be api_key session_id =
     try_except
       (py_bind (client_call be api_key (GetSession session_id)) (\<lambda>result.
          if \<not> r_success result then
            py_return (failure (str ''Failed to query session info: ''
                                 @ format_opt (r_error_message result)))
          else if hasattr result ''data'' \<and> truthy (getattr_default result ''data'' PNone) then
            py_return (SimpleResult True (getattr_default result ''data'' PNone) None)
          else
            py_return (failure (str ''Session '' @ session_id
                                 @ str '' does not exist or is inaccessible''))))
       (\<lambda>e. py_return (failure (str ''Failed to get session info: '' @ exn_str e)))"

definition execute_command ::
  "'s backend \<Rightarrow> pystr \<Rightarrow> pystr \<Rightarrow> pystr \<Rightarrow> int \<Rightarrow> ('s, simple_result) py" where
  "execute_command be api_key session_id command timeout_ms =
     try_except
       (py_bind (get_session_info be api_key session_id) (\<lambda>session_info.
          if \<not> success session_info then py_return session_info
          else
            py_bind (Session be api_key session_id) (\<lambda>session.
            py_bind (session_call be session ''command''
                       (ExecuteCommand session command timeout_ms)) (\<lambda>result.
              result_envelope result
                (and_then (getattr result ''output'') (\<lambda>output.
                   Inr (PDict [(''output'', output),
                               (''error'', getattr_default result ''error'' PNone),
                               (''exit_code'', getattr_default result ''exit_code'' PNone)])))))))
       (\<lambda>e. py_return (failure (str ''Command execution failed: '' @ exn_str e)))"

definition delete_session ::
  "'s backend \<Rightarrow> pystr \<Rightarrow> pystr \<Rightarrow> bool \<Rightarrow> ('s, simple_result) py" where
  "delete_session be api_key session_id sync_context =
     try_except
       (py_bind (get_session_info be api_key session_id) (\<lambda>session_info.
          if \<not> success session_info then py_return session_info
          else
            py_bind (get_session_handle be api_key session_id) (\<lambda>session.
            py_bind (client_call be api_key (Delete session sync_context)) (\<lambda>result.
              result_envelope result
                (Inr (PDict [(''session_id'', PStr session_id), (''deleted'', PBool True)]))))))
       (\<lambda>e. py_return (failure (str ''Session deletion failed: '' @ exn_str e)))"

definition read_file :: "'s backend \<Rightarrow> pystr \<Rightarrow> pystr \<Rightarrow> pystr \<Rightarrow> ('s, simple_result) py" where
  "read_file be api_key session_id file_path =
     try_except
       (py_bind (get_session_info be api_key session_id) (\<lambda>session_info.
          if \<not> success session_info then py_return session_info
          else
            py_bind (get_session_handle be api_key session_id) (\<lambda>session.
            py_bind (session_call be session ''file_system'' (ReadFile session file_path)) (\<lambda>result.
              result_envelope result
                (and_then (getattr result ''content'') (\<lambda>content.
                 and_then (if truthy content then py_len content else Inr 0) (\<lambda>size.
                   Inr (PDict [(''file_path'', PStr file_path), (''content'', content),
                               (''size'', PInt size)]))))))))
       (\<lambda>e. py_return (failure (str ''Failed to read file: '' @ exn_str e)))"

definition write_file ::
  "'s backend \<Rightarrow> pystr \<Rightarrow> pystr \<Rightarrow> pystr \<Rightarrow> pystr \<Rightarrow> ('s, simple_result) py" where
  "write_file be api_key session_id file_path content =
     try_except
       (py_bind (get_session_info be api_key session_id) (\<lambda>session_info.
          if \<not> success session_info then py_return session_info
          else
            py_bind (Session be api_key session_id) (\<lambda>session.
            py_bind (session_call be session ''file_system''
                       (WriteFile session file_path content)) (\<lambda>result.
              result_envelope result
                (Inr (PDict [(''file_path'', PStr file_path),
                             (''size'', PInt (int (length content)))]))))))
       (\<lambda>e. py_return (failure (str ''Failed to write file: '' @ exn_str e)))"

definition list_directory ::
  "'s backend \<Rightarrow> pystr \<Rightarrow> pystr \<Rightarrow> pystr \<Rightarrow> ('s, simple_result) py" where
  "list_directory be api_key session_id directory_path =
     try_except
       (py_bind (get_session_info be api_key session_id) (\<lambda>session_info.
          if \<not> success session_info then py_return session_info
          else
            py_bind (get_session_handle be api_key session_id) (\<lambda>session.
            py_bind (session_call be session ''file_system''
                       (ListDirectory session directory_path)) (\<lambda>result.
              result_envelope result
                (and_then (if hasattr result ''files'' then getattr result ''files''
                           else Inr (PList [])) (\<lambda>files.
                 and_then (if hasattr result ''files''
                           then and_then (getattr result ''files'') py_len
                           else Inr 0) (\<lambda>count.
                   Inr (PDict [(''directory_path'', PStr directory_path), (''files'', files),
                               (''count'', PInt count)]))))))))
       (\<lambda>e. py_return (failure (str ''Failed to list directory: '' @ exn_str e)))"

definition run_code :: "'s backend \<Rightarrow> pystr \<Rightarrow> pystr \<Rightarrow> pystr \<Rightarrow> pystr \<Rightarrow> ('s, simple_result) py" where
  "run_code be api_key session_id code language =
     try_except
       (py_bind (get_session_info be api_key session_id) (\<lambda>session_info.
          if \<not> success session_info then py_return session_info
          else
            py_bind (get_session_handle be api_key session_id) (\<lambda>session.
            py_bind (session_call be session ''code'' (RunCode session code language)) (\<lambda>result.
            py_bind (pure (getattr result ''result'')) (\<lambda>logged.
              result_envelope result
                (and_then (getattr result ''result'') (\<lambda>res.
                   Inr (PDict [(''language'', PStr language), (''result'', res),
                               (''output'', getattr_default result ''output'' res),
                               (''error'', getattr_default result ''error'' PNone)]))))))))
       (\<lambda>e. py_return (failure (str ''Code execution failed: '' @ exn_str e)))"

definition ui_screenshot :: "'s backend \<Rightarrow> pystr \<Rightarrow> pystr \<Rightarrow> ('s, simple_result) py" where
  "ui_screenshot be api_key session_id =
     try_except
       (py_bind (get_session_info be api_key session_id) (\<lambda>session_info.
          if \<not> success session_info then py_return session_info
          else
            py_bind (get_session_handle be api_key session_id) (\<lambda>session.
            py_bind (session_call be session ''ui'' (UiScreenshot session)) (\<lambda>result.
              result_envelope result (getattr result ''data'')))))
       (\<lambda>e. py_return (failure (str ''UI screenshot failed: '' @ exn_str e)))"

definition ui_click :: "'s backend \<Rightarrow> pystr \<Rightarrow> pystr \<Rightarrow> int \<Rightarrow> int \<Rightarrow> ('s, simple_result) py" where
  "ui_click be api_key session_id x y =
     try_except
       (py_bind (get_session_info be api_key session_id) (\<lambda>session_info.
          if \<not> success session_info then py_return session_info
          else
            py_bind (get_session_handle be api_key session_id) (\<lambda>session.
            py_bind (session_call be session ''ui'' (UiClick session x y)) (\<lambda>result.
              result_envelope result
                (Inr (PDict [(''action'', PStr (str ''click'')), (''x'', PInt x), (''y'', PInt y)]))))))
       (\<lambda>e. py_return (failure (str ''UI click failed: '' @ exn_str e)))"

definition ui_type :: "'s backend \<Rightarrow> pystr \<Rightarrow> pystr \<Rightarrow> pystr \<Rightarrow> ('s, simple_result) py" where
  "ui_type be api_key session_id text =
     try_except
       (py_bind (get_session_info be api_key session_id) (\<lambda>session_info.
          if \<not> success session_info then py_return session_info
          else
            py_bind (get_session_handle be api_key session_id) (\<lambda>session.
            py_bind (session_call be session ''ui'' (UiType session text)) (\<lambda>result.
              result_envelope result
                (Inr (PDict [(''action'', PStr (str ''type'')), (''text'', PStr text)]))))))
       (\<lambda>e. py_return (failure (str ''UI type failed: '' @ exn_str e)))"

definition ui_key :: "'s backend \<Rightarrow> pystr \<Rightarrow> pystr \<Rightarrow> pystr \<Rightarrow> ('s, simple_result) py" where
  "ui_key be api_key session_id key =
     try_except
       (py_bind (get_session_info be api_key session_id) (\<lambda>session_info.
          if \<not> success session_info then py_return session_info
          else
            py_bind (get_session_handle be api_key session_id) (\<lambda>session.
            py_bind (session_call be session ''ui'' (UiKey session key)) (\<lambda>result.
              result_envelope result
                (Inr (PDict [(''action'', PStr (str ''key'')), (''key'', PStr key)]))))))
       (\<lambda>e. py_return (failure (str ''UI key press failed: '' @ exn_str e)))"

definition browser_initialize :: "'s backend \<Rightarrow> pystr \<Rightarrow> pystr \<Rightarrow> ('s, simple_result) py" where
  "browser_initialize be api_key session_id =
     try_except
       (py_bind (get_session_info be api_key session_id) (\<lambda>session_info.
          if \<not> success session_info then py_return session_info
          else
            py_bind (get_session_handle be api_key session_id) (\<lambda>session.
            py_bind (session_value be session ''browser'' (BrowserInitialize session)) (\<lambda>result.
              if truthy result then
                py_bind (session_value be session ''browser'' (GetEndpointUrl session))
                  (\<lambda>endpoint_url.
                    py_return (SimpleResult True
                      (PDict [(''initialized'', PBool True), (''endpoint_url'', endpoint_url)])
                      None))
              else py_return (failure (str ''Browser initialization failed''))))))
       (\<lambda>e. py_return (failure (str ''Browser initialization failed: '' @ exn_str e)))"

text \<open>\<open>'items': result.data, 'count': len(result.data) if result.data else 0\<close>.\<close>

definition counted :: "string \<Rightarrow> sdk_result \<Rightarrow> exn + pyval" where
  "counted items result =
     and_then (getattr result ''data'') (\<lambda>d.
     and_then (if truthy d then py_len d else Inr 0) (\<lambda>count.
       Inr (PDict [(items, d), (''count'', PInt count)])))"

definition get_installed_apps ::
  "'s backend \<Rightarrow> pystr \<Rightarrow> pystr \<Rightarrow> bool \<Rightarrow> bool \<Rightarrow> bool \<Rightarrow> ('s, simple_result) py" where
  "get_installed_apps be api_key session_id start_menu desktop ignore_system_apps =
     try_except
       (py_bind (get_session_info be api_key session_id) (\<lambda>session_info.
          if \<not> success session_info then py_return session_info
          else
            py_bind (get_session_handle be api_key session_id) (\<lambda>session.
            py_bind (session_call be session ''application''
                       (GetInstalledApps session start_menu desktop ignore_system_apps)) (\<lambda>result.
              result_envelope result (counted ''apps'' result)))))
       (\<lambda>e. py_return (failure (str ''Failed to get app list: '' @ exn_str e)))"

definition list_windows :: "'s backend \<Rightarrow> pystr \<Rightarrow> pystr \<Rightarrow> ('s, simple_result) py" where
  "list_windows be api_key session_id =
     try_except
       (py_bind (get_session_info be api_key session_id) (\<lambda>session_info.
          if \<not> success session_info then py_return session_info
          else
            py_bind (get_session_handle be api_key session_id) (\<lambda>session.
            py_bind (session_call be session ''window'' (ListWindows session)) (\<lambda>result.
              result_envelope result (counted ''windows'' result)))))
       (\<lambda>e. py_return (failure (str ''Failed to list windows: '' @ exn_str e)))"

subsection \<open>Listing sessions: the pagination loop\<close>

text \<open>
  One pass of the loop body after a successful page request, on the ids gathered so far:
  \<^verbatim>\<open>
  if hasattr(result, 'session_ids') and result.session_ids:
      all_session_ids.extend(result.session_ids)
  total = result.total if hasattr(result, 'total') else len(result.session_ids)
  if len(all_session_ids) >= total or not result.session_ids:
      break
  \<close>
  It yields whether the loop breaks, and the ids gathered.
\<close>

definition page_step :: "sdk_result \<Rightarrow> pyval list \<Rightarrow> exn + (bool \<times> pyval list)" where
  "page_step result all_session_ids =
     and_then (if hasattr result ''session_ids''
                  \<and> truthy (getattr_default result ''session_ids'' PNone)
               then and_then (and_then (getattr result ''session_ids'') py_iter)
                      (\<lambda>ids. Inr (all_session_ids @ ids))
               else Inr all_session_ids) (\<lambda>gathered.
     and_then (if hasattr result ''total'' then getattr result ''total''
               else and_then (and_then (getattr result ''session_ids'') py_len)
                      (\<lambda>n. Inr (PInt n))) (\<lambda>total.
     and_then (int_ge (int (length gathered)) total) (\<lambda>enough.
       if enough then Inr (True, gathered)
       else and_then (getattr result ''session_ids'')
              (\<lambda>ids. Inr (\<not> truthy ids, gathered)))))"

text \<open>
  The \<open>while True\<close> loop. Nothing bounds the number of pages, so the loop is a partial
  function: \<open>None\<close> is a run that never leaves the loop. A run that leaves it has
  raised, returned a failed envelope from inside the loop, or reached \<open>break\<close> with the
  ids gathered.
\<close>

partial_function (option) list_pages ::
  "'s backend \<Rightarrow> pystr \<Rightarrow> int \<Rightarrow> pyval list \<Rightarrow> 's world
     \<Rightarrow> ((exn + simple_result + pyval list) \<times> 's world) option" where
  "list_pages be api_key page all_session_ids w =
     (case client_call be api_key (ListSessions dify_labels page 100) w of
        (Inl e, w') \<Rightarrow> Some (Inl e, w')
      | (Inr result, w') \<Rightarrow>
          if \<not> r_success result then
            Some (Inr (Inl (failure (str ''Failed to query session list: ''
                                      @ format_opt (r_error_message result)))), w')
          else (case page_step result all_session_ids of
                  Inl e \<Rightarrow> Some (Inl e, w')
                | Inr (stop, gathered) \<Rightarrow>
                    if stop then Some (Inr (Inr gathered), w')
                    else list_pages be api_key (page + 1) gathered w'))"

definition session_entry :: "pyval \<Rightarrow> pyval" where
  "session_entry session_id =
     PDict [(''session_id'', session_id), (''status'', PStr (str ''active''))]"

definition list_sessions ::
  "'s backend \<Rightarrow> pystr \<Rightarrow> 's world \<Rightarrow> ((exn + simple_result) \<times> 's world) option" where
  "list_sessions be api_key w =
     (case list_pages be api_key 1 [] w of
        None \<Rightarrow> None
      | Some (Inl e, w') \<Rightarrow>
          Some (Inr (failure (str ''Failed to list sessions: '' @ exn_str e)), w')
      | Some (Inr (Inl early), w') \<Rightarrow> Some (Inr early, w')
      | Some (Inr (Inr all_session_ids), w') \<Rightarrow>
          Some (Inr (SimpleResult True
                  (PDict [(''sessions'', PList (map session_entry all_session_ids)),
                          (''count'', PInt (int (length all_session_ids)))]) None), w'))"

section \<open>What the properties speak of\<close>

text \<open>The envelope invariant: success carries no error, failure carries no data.\<close>

definition well_formed :: "simple_result \<Rightarrow> bool" where
  "well_formed r = ((success r \<longrightarrow> error r = None) \<and> (\<not> success r \<longrightarrow> data r = PNone))"

text \<open>
  A method returns a well-formed envelope from every world: it never raises to its
  caller.
\<close>

definition returns_well_formed :: "('s, simple_result) py \<Rightarrow> bool" where
  "returns_well_formed m = (\<forall>w. \<exists>r w'. m w = (Inr r, w') \<and> well_formed r)"

text \<open>
  A method catches what the SDK raises: from every world it returns an envelope, the
  trace grows by the calls it issued, and if one of them raised \<open>e\<close> the envelope is
  the failure whose message is one of the method's prefixes followed by \<open>str(e)\<close>.
\<close>

definition catches :: "pystr list \<Rightarrow> ('s, simple_result) py \<Rightarrow> bool" where
  "catches prefixes m =
     (\<forall>w. \<exists>r w' ev. m w = (Inr r, w') \<and> trace w' = trace w @ ev
        \<and> (\<forall>c e. (c, Some e) \<in> set ev \<longrightarrow> (\<exists>p \<in> set prefixes. r = failure (p @ exn_str e))))"

text \<open>What a method returns satisfies \<open>P\<close>, whenever it returns.\<close>

definition post :: "('s, 'a) py \<Rightarrow> ('a \<Rightarrow> bool) \<Rightarrow> bool" where
  "post m P = (\<forall>w x w'. m w = (Inr x, w') \<longrightarrow> P x)"

text \<open>The prefix under which the existence lookup reports what the SDK raised.\<close>

definition lookup_prefix :: pystr where
  "lookup_prefix = str ''Failed to get session info: ''"

text \<open>
  A computation lets the SDK's exceptions through: the trace grows by the calls it
  issued, and if one of them raised, the computation raised that exception.
\<close>

definition propagates :: "('s, 'a) py \<Rightarrow> bool" where
  "propagates m =
     (\<forall>w res w'. m w = (res, w') \<longrightarrow>
        (\<exists>ev. trace w' = trace w @ ev \<and> (\<forall>c e. (c, Some e) \<in> set ev \<longrightarrow> res = Inl e)))"

text \<open>A computation issues only calls of a given kind.\<close>

definition calls_only :: "(call \<Rightarrow> bool) \<Rightarrow> ('s, 'a) py \<Rightarrow> bool" where
  "calls_only allowed m =
     (\<forall>w res w'. m w = (res, w') \<longrightarrow>
        (\<exists>ev. trace w' = trace w @ ev \<and> (\<forall>c out. (c, out) \<in> set ev \<longrightarrow> allowed c)))"

text \<open>
  One round of the pagination loop that goes on to the next page: the request returns
  a successful page and the loop does not break.
\<close>

inductive next_page ::
  "'s backend \<Rightarrow> pystr \<Rightarrow> int \<times> pyval list \<times> 's world \<Rightarrow> int \<times> pyval list \<times> 's world \<Rightarrow> bool"
  for be :: "'s backend" and api_key :: pystr where
  "client_call be api_key (ListSessions dify_labels page 100) w = (Inr result, w')
   \<Longrightarrow> r_success result
   \<Longrightarrow> page_step result all_session_ids = Inr (False, gathered)
   \<Longrightarrow> next_page be api_key (page, all_session_ids, w) (page + 1, gathered, w')"

text \<open>The loop, started at page 1 with no ids, reaches a configuration after some rounds.\<close>

inductive reaches ::
  "'s backend \<Rightarrow> pystr \<Rightarrow> 's world \<Rightarrow> int \<times> pyval list \<times> 's world \<Rightarrow> bool"
  for be :: "'s backend" and api_key :: pystr and w :: "'s world" where
  start: "reaches be api_key w (1, [], w)"
| round: "reaches be api_key w cfg \<Longrightarrow> next_page be api_key cfg cfg' \<Longrightarrow> reaches be api_key w cfg'"

text \<open>
  What holds of a run of the loop that leaves it: the trace grows by the calls issued,
  an exception of the SDK is the exception the loop raises, every call is a page request
  under the ownership label (or the construction of the SDK instance), and an envelope
  returned from inside the loop is a failure.
\<close>

definition loop_exit ::
  "pystr \<Rightarrow> 's world \<Rightarrow> (exn + simple_result + pyval list) \<times> 's world \<Rightarrow> bool" where
  "loop_exit k w out =
     (\<exists>ev. trace (snd out) = trace w @ ev
        \<and> (\<forall>c e. (c, Some e) \<in> set ev \<longrightarrow> fst out = Inl e)
        \<and> (\<forall>c res. (c, res) \<in> set ev \<longrightarrow>
              c = NewAgentBay k \<or> (\<exists>page. c = ListSessions dify_labels page 100))
        \<and> (\<forall>early. fst out = Inr (Inl early) \<longrightarrow> (\<exists>msg. early = failure msg)))"

text \<open>The page requests among the calls of a trace.\<close>

fun is_page_request :: "call \<times> exn option \<Rightarrow> bool" where
  "is_page_request (ListSessions labels page limit, out) = True"
| "is_page_request (c, out) = False"

text \<open>
  A successful page of a listing: the result object carries the list \<open>ids\<close> as
  \<open>session_ids\<close> and the integer \<open>reported\<close> as \<open>total\<close>.
\<close>

definition page_of :: "sdk_result \<Rightarrow> pyval list \<Rightarrow> int \<Rightarrow> bool" where
  "page_of result ids reported =
     (r_success result
      \<and> map_of (r_attrs result) ''session_ids'' = Some (PList ids)
      \<and> map_of (r_attrs result) ''total'' = Some (PInt reported))"

section \<open>A scripted backend\<close>

text \<open>
  A backend for concrete runs: its state is the list of answers still to give, one per
  call, whatever the call; constructing the SDK instance always works and uses none.
\<close>

datatype answer = Raises exn | Returns sdk_result | Gives pyval

definition out_of_script :: exn where
  "out_of_script = Exception (str ''no answer left'')"

fun answer_call :: "answer list \<Rightarrow> (exn + sdk_result) \<times> answer list" where
  "answer_call [] = (Inl out_of_script, [])"
| "answer_call (Raises e # rest) = (Inl e, rest)"
| "answer_call (Returns r # rest) = (Inr r, rest)"
| "answer_call (Gives v # rest) = (Inl (AttributeError (str ''not a result object'')), rest)"

fun answer_value :: "answer list \<Rightarrow> (exn + pyval) \<times> answer list" where
  "answer_value [] = (Inl out_of_script, [])"
| "answer_value (Raises e # rest) = (Inl e, rest)"
| "answer_value (Gives v # rest) = (Inr v, rest)"
| "answer_value (Returns r # rest) = (Inr (PObj (r_attrs r)), rest)"

definition scripted :: "answer list backend" where
  "scripted = \<lparr>sdk_new = (\<lambda>api_key s. (Inr (), s)),
               sdk_call = (\<lambda>c s. answer_call s),
               sdk_value = (\<lambda>c s. answer_value s)\<rparr>"

definition fresh :: "answer list \<Rightarrow> answer list world" where
  "fresh script = \<lparr>remote_state = script, client_built = False, trace = []\<rparr>"

definition ok_result :: "(string \<times> pyval) list \<Rightarrow> sdk_result" where
  "ok_result attrs = \<lparr>r_success = True, r_error_message = None, r_attrs = attrs\<rparr>"

definition found :: answer where
  "found = Returns (ok_result [(''data'', PObj [(''status'', PStr (str ''RUNNING''))])])"

definition handle :: answer where
  "handle = Returns (ok_result [(''session'', PObj [(''session_id'', PStr (str ''s-1234567''))])])"

definition key :: pystr where
  "key = str ''ak-0123456789''"

text \<open>A page of \<open>n\<close> ids from a listing that reports 250 sessions in all.\<close>

definition page_answer :: "nat \<Rightarrow> sdk_result" where
  "page_answer n =
     ok_result [(''session_ids'', PList (replicate n (PStr (str ''s-1234567'')))),
                (''total'', PInt 250)]"

definition created :: answer where
  "created = Returns (ok_result
     [(''session'', PObj [(''session_id'', PStr (str ''s-1234567'')),
                          (''resource_url'', PStr (str ''https://example.invalid/s''))]),
      (''request_id'', PStr (str ''req-1''))])"

section \<open>The browser bridge (utils/browser\_automation.py)\<close>

text \<open>
  \<open>BrowserActionResult\<close> is a dataclass with the same three fields as \<open>SimpleResult\<close>,
  and the tool reads both alike; the model uses one record for the two.
\<close>

definition BrowserActionResult :: "bool \<Rightarrow> pyval \<Rightarrow> pystr option \<Rightarrow> simple_result" where
  "BrowserActionResult s d e = \<lparr>success = s, data = d, error = e\<rparr>"

text \<open>
  The browser driver is not part of the repository. For one bridged call it is given by
  what its steps do: \<open>connect_over_cdp\<close> stands for starting the driver, connecting to
  the endpoint and picking or opening a context and a page, and gives the browser
  version and the number of pages; \<open>page_screenshot\<close> is \<open>page.screenshot(full_page=...)\<close>
  and gives the image bytes.
\<close>

record driver =
  connect_over_cdp :: "pystr \<Rightarrow> exn + (pystr \<times> nat)"
  page_screenshot :: "bool \<Rightarrow> exn + nat list"

definition connect :: "driver \<Rightarrow> pystr \<Rightarrow> simple_result" where
  "connect drv endpoint_url =
     (case connect_over_cdp drv endpoint_url of
        Inl e \<Rightarrow> BrowserActionResult False PNone
                   (Some (str ''Failed to connect to browser: '' @ exn_str e))
      | Inr (browser_version, pages_count) \<Rightarrow>
          BrowserActionResult True
            (PDict [(''connected'', PBool True), (''browser_version'', PStr browser_version),
                    (''pages_count'', PInt (int pages_count))]) None)"

text \<open>
  \<^verbatim>\<open>
  async def screenshot(self, full_page: bool = False) -> BrowserActionResult:
      try:
          if not self.page:
              connect_result = await self.connect()
              if not connect_result.success:
                  return connect_result
          screenshot_data = await self.page.screenshot(full_page=full_page)
          return BrowserActionResult(success=True, data={
              'screenshot_data': screenshot_data, 'format': 'png',
              'full_page': full_page, 'size': len(screenshot_data)})
      except Exception as e:
          return BrowserActionResult(success=False, error=f"Screenshot failed: {str(e)}")
  \<close>
  \<open>has_page\<close> says whether the automation object already holds a page.
\<close>

definition screenshot :: "driver \<Rightarrow> pystr \<Rightarrow> bool \<Rightarrow> bool \<Rightarrow> simple_result" where
  "screenshot drv endpoint_url has_page full_page =
     (if \<not> has_page \<and> \<not> success (connect drv endpoint_url) then connect drv endpoint_url
      else (case page_screenshot drv full_page of
              Inl e \<Rightarrow> BrowserActionResult False PNone
                         (Some (str ''Screenshot failed: '' @ exn_str e))
            | Inr screenshot_data \<Rightarrow>
                BrowserActionResult True
                  (PDict [(''screenshot_data'', PBytes screenshot_data),
                          (''format'', PStr (str ''png'')),
                          (''full_page'', PBool full_page),
                          (''size'', PInt (int (length screenshot_data)))]) None))"

subsection \<open>Running a step from a synchronous caller\<close>

text \<open>
  Wall-clock time is counted in seconds. A piece of work either is done after some
  time with an outcome, or never ends.
\<close>

datatype 'a timed = Done nat 'a | Never

text \<open>
  The coroutine the worker thread runs to completion:
  \<^verbatim>\<open>
  async def _run():
      automation = AgentBayBrowserAutomation(endpoint_url)
      try:
          return await action_func(automation, *args, **kwargs)
      finally:
          await automation.close()
  \<close>
  The constructor raises \<open>ImportError\<close> when the driver library is missing. \<open>close\<close>
  catches every exception itself, so the outcome of the step stands once \<open>close\<close> is done.
\<close>

definition run_coroutine ::
  "bool \<Rightarrow> (exn + simple_result) timed \<Rightarrow> simple_result timed
     \<Rightarrow> (exn + simple_result) timed" where
  "run_coroutine playwright_available step close =
     (if \<not> playwright_available then Done 0 (Inl (ImportError (str ''Playwright not installed'')))
      else (case step of
              Never \<Rightarrow> Never
            | Done t outcome \<Rightarrow>
                (case close of Never \<Rightarrow> Never | Done t' shut \<Rightarrow> Done (t + t') outcome)))"

text \<open>
  \<open>future.result(timeout=...)\<close> of the standard library: the outcome of the work if it is
  done within the timeout, else \<open>TimeoutError\<close> when the timeout has elapsed; with the
  time at which the caller goes on.
\<close>

definition future_result :: "nat \<Rightarrow> (exn + 'a) timed \<Rightarrow> nat \<times> (exn + 'a)" where
  "future_result timeout work =
     (case work of
        Never \<Rightarrow> (timeout, Inl (TimeoutError []))
      | Done t outcome \<Rightarrow> if t \<le> timeout then (t, outcome) else (timeout, Inl (TimeoutError [])))"

text \<open>
  Leaving \<open>with ThreadPoolExecutor() as executor\<close>, by return or by exception, calls
  \<open>executor.shutdown(wait=True)\<close>, which joins the worker thread: the caller goes on when
  the submitted work is done, and never if the work never ends.
\<close>

definition executor_exit :: "'a timed \<Rightarrow> nat \<Rightarrow> unit timed" where
  "executor_exit work now = (case work of Never \<Rightarrow> Never | Done t outcome \<Rightarrow> Done (max now t) ())"

text \<open>
  \<^verbatim>\<open>
  try:
      with concurrent.futures.ThreadPoolExecutor() as executor:
          future = executor.submit(run_in_new_thread)
          return future.result(timeout=60)  # 60 seconds timeout
  except Exception as e:
      return BrowserActionResult(success=False,
                                 error=f"Failed to run browser operation: {str(e)}")
  \<close>
  The result says when the caller gets its envelope back, if ever.
\<close>

definition run_browser_action ::
  "bool \<Rightarrow> (exn + simple_result) timed \<Rightarrow> simple_result timed \<Rightarrow> simple_result timed" where
  "run_browser_action playwright_available step close =
     (let work = run_coroutine playwright_available step close;
          waited = future_result 60 work
      in case executor_exit work (fst waited) of
           Never \<Rightarrow> Never
         | Done t left \<Rightarrow>
             Done t (case snd waited of
                       Inr result \<Rightarrow> result
                     | Inl e \<Rightarrow> BrowserActionResult False PNone
                                (Some (str ''Failed to run browser operation: '' @ exn_str e))))"

section \<open>The browser tool's report (tools/browser\_automation.py)\<close>

text \<open>The messages a tool yields to its host.\<close>

datatype message =
    TextMessage pystr
  | BlobMessage pyval "(string \<times> pyval) list"
  | JsonMessage "(string \<times> pyval) list"
  | VariableMessage string pyval

text \<open>Raw bytes anywhere inside a value.\<close>

fun has_bytes :: "pyval \<Rightarrow> bool" where
  "has_bytes (PBytes bs) = True"
| "has_bytes (PList xs) = (\<exists>x \<in> set xs. has_bytes x)"
| "has_bytes (PDict kvs) = (\<exists>v \<in> snd ` set kvs. has_bytes v)"
| "has_bytes (PObj attrs) = (\<exists>v \<in> snd ` set attrs. has_bytes v)"
| "has_bytes v = False"

text \<open>Raw bytes in a message outside the binary channel, which is the blob message.\<close>

fun inlines_bytes :: "message \<Rightarrow> bool" where
  "inlines_bytes (TextMessage s) = False"
| "inlines_bytes (BlobMessage blob meta) = False"
| "inlines_bytes (JsonMessage kvs) = has_bytes (PDict kvs)"
| "inlines_bytes (VariableMessage name v) = has_bytes v"

definition SUPPORTED_ACTIONS :: "pystr list" where
  "SUPPORTED_ACTIONS =
     map str [''navigate'', ''click'', ''type'', ''scroll'', ''screenshot'', ''get_content'',
              ''analyze_elements'', ''wait_element'', ''wait'']"

text \<open>\<open>d.get(key)\<close> and \<open>d.get(key, default)\<close>: only a dict has the method.\<close>

fun dict_get_default :: "pyval \<Rightarrow> string \<Rightarrow> pyval \<Rightarrow> exn + pyval" where
  "dict_get_default (PDict kvs) k d = Inr (case map_of kvs k of None \<Rightarrow> d | Some v \<Rightarrow> v)"
| "dict_get_default v k d = Inl (no_attribute ''get'')"

definition dict_get :: "pyval \<Rightarrow> string \<Rightarrow> exn + pyval" where
  "dict_get v k = dict_get_default v k PNone"

text \<open>\<open>a or b\<close>, where \<open>b\<close> is evaluated only when \<open>a\<close> is false.\<close>

definition or_else :: "pyval \<Rightarrow> (exn + pyval) \<Rightarrow> exn + pyval" where
  "or_else a b = (if truthy a then Inr a else b)"

fun isinstance_dict :: "pyval \<Rightarrow> bool" where
  "isinstance_dict (PDict kvs) = True"
| "isinstance_dict v = False"

text \<open>\<open>d[k] = v\<close> and \<open>d.update(e)\<close> on a dict that keeps insertion order.\<close>

definition dict_set :: "(string \<times> pyval) list \<Rightarrow> string \<Rightarrow> pyval \<Rightarrow> (string \<times> pyval) list" where
  "dict_set kvs k v =
     (if k \<in> fst ` set kvs then map (\<lambda>kv. if fst kv = k then (k, v) else kv) kvs
      else kvs @ [(k, v)])"

definition dict_update :: "(string \<times> pyval) list \<Rightarrow> (string \<times> pyval) list \<Rightarrow> (string \<times> pyval) list" where
  "dict_update d e = foldl (\<lambda>acc kv. dict_set acc (fst kv) (snd kv)) d e"

text \<open>\<open>x[:1000]\<close>.\<close>

fun first_1000 :: "pyval \<Rightarrow> exn + pyval" where
  "first_1000 (PStr s) = Inr (PStr (take 1000 s))"
| "first_1000 (PBytes bs) = Inr (PBytes (take 1000 bs))"
| "first_1000 (PList xs) = Inr (PList (take 1000 xs))"
| "first_1000 v = Inl (TypeError (str ''object is not subscriptable''))"

text \<open>
  The wording of the text messages (their emoji, the two-decimal rendering of the
  operation time, the suggestions) plays no part in what follows and is a parameter:
  \<open>success_text\<close> gets the action, the session id, the operation time and the details
  picked from the data, \<open>error_text\<close> the action, the session id, the operation time and
  the error.
\<close>

record wording =
  success_text :: "pystr \<Rightarrow> pystr \<Rightarrow> real \<Rightarrow> pyval list \<Rightarrow> pystr"
  error_text :: "pystr \<Rightarrow> pystr \<Rightarrow> real \<Rightarrow> pystr option \<Rightarrow> pystr"

text \<open>\<open>data.get('url') or data.get('navigation', {}).get('url')\<close>, and the like for the title.\<close>

definition navigation_field :: "pyval \<Rightarrow> string \<Rightarrow> exn + pyval" where
  "navigation_field d field =
     and_then (dict_get d field) (\<lambda>direct.
       or_else direct
         (and_then (dict_get_default d ''navigation'' (PDict [])) (\<lambda>nav. dict_get nav field)))"

text \<open>
  \<open>_build_success_message\<close>: \<open>SUPPORTED_ACTIONS[action]\<close> raises for an unknown action,
  and the details are read from \<open>data\<close> with \<open>get\<close> when \<open>data\<close> is true.
\<close>

definition build_success_message ::
  "wording \<Rightarrow> pystr \<Rightarrow> pystr \<Rightarrow> real \<Rightarrow> pyval \<Rightarrow> exn + pystr" where
  "build_success_message wd action session_id operation_time d =
     (if action \<notin> set SUPPORTED_ACTIONS then Inl (KeyError action)
      else
        and_then
          (if action = str ''navigate'' \<and> truthy d then
             and_then (navigation_field d ''url'') (\<lambda>url.
             and_then (navigation_field d ''title'') (\<lambda>title. Inr [url, title]))
           else if action = str ''screenshot'' \<and> truthy d then
             and_then (dict_get d ''size'') (\<lambda>size.
             and_then (or_else size (dict_get_default d ''data_size'' (PInt 0))) (\<lambda>size'.
               Inr [size']))
           else if action \<in> {str ''click'', str ''type''} \<and> truthy d then
             and_then (dict_get d ''selector'') (\<lambda>selector. Inr [selector])
           else if action = str ''get_content'' \<and> truthy d then
             and_then (dict_get_default d ''content_length'' (PInt 0)) (\<lambda>n. Inr [n])
           else Inr [])
          (\<lambda>details. Inr (success_text wd action session_id operation_time details)))"

definition build_error_message ::
  "wording \<Rightarrow> pystr \<Rightarrow> pystr \<Rightarrow> real \<Rightarrow> pystr option \<Rightarrow> exn + pystr" where
  "build_error_message wd action session_id operation_time err =
     (if action \<notin> set SUPPORTED_ACTIONS then Inl (KeyError action)
      else Inr (error_text wd action session_id operation_time err))"

text \<open>\<open>_set_action_variables\<close>.\<close>

definition set_action_variables :: "pystr \<Rightarrow> pyval \<Rightarrow> exn + message list" where
  "set_action_variables action d =
     (if action = str ''navigate'' \<and> truthy d then
        and_then (navigation_field d ''url'') (\<lambda>url.
        and_then (navigation_field d ''title'') (\<lambda>title.
          Inr ((if truthy url then [VariableMessage ''browser_current_url'' url] else [])
               @ (if truthy title then [VariableMessage ''browser_page_title'' title] else []))))
      else if action = str ''screenshot'' \<and> truthy d then
        and_then (dict_get d ''output_path'') (\<lambda>path.
          Inr (if truthy path then [VariableMessage ''browser_screenshot_path'' path] else []))
      else if action = str ''get_content'' \<and> truthy d then
        and_then (dict_get d ''content'') (\<lambda>content.
          if truthy content then
            and_then (first_1000 content) (\<lambda>head.
              Inr [VariableMessage ''browser_page_content'' head])
          else Inr [])
      else Inr [])"

text \<open>
  The screenshot bytes for the blob message: the condition
  \<open>action == 'screenshot' and result.data and isinstance(result.data, dict) and
  result.data.get('screenshot_data')\<close>, and the blob it yields.
\<close>

definition blob_messages :: "pystr \<Rightarrow> pyval \<Rightarrow> message list" where
  "blob_messages action d =
     (case d of
        PDict kvs \<Rightarrow>
          (case map_of kvs ''screenshot_data'' of
             Some screenshot_data \<Rightarrow>
               if action = str ''screenshot'' \<and> truthy d \<and> truthy screenshot_data
               then [BlobMessage screenshot_data
                       [(''mime_type'', PStr (str ''image/png'')),
                        (''filename'', PStr (str ''screenshot.png''))]]
               else []
           | None \<Rightarrow> [])
      | _ \<Rightarrow> [])"

text \<open>
  The JSON echo of a successful result:
  \<^verbatim>\<open>
  response_data = {'session_id': session_id, 'action': action, 'success': True,
                   'operation_time': operation_time}
  if action == 'screenshot' and result.data:
      json_data = {k: v for k, v in result.data.items() if k != 'screenshot_data'}
      response_data.update(json_data)
  else:
      response_data.update(result.data or {})
  \<close>
  In the second branch every producer of results gives a dict or \<open>None\<close>; \<open>update\<close> with
  another true value is modelled as raising.
\<close>

definition response_data :: "pystr \<Rightarrow> pystr \<Rightarrow> real \<Rightarrow> pyval \<Rightarrow> exn + (string \<times> pyval) list" where
  "response_data action session_id operation_time d =
     (let base = [(''session_id'', PStr session_id), (''action'', PStr action),
                  (''success'', PBool True), (''operation_time'', PFloat operation_time)]
      in if action = str ''screenshot'' \<and> truthy d then
           (case d of
              PDict kvs \<Rightarrow>
                Inr (dict_update base (filter (\<lambda>kv. fst kv \<noteq> ''screenshot_data'') kvs))
            | _ \<Rightarrow> Inl (no_attribute ''items''))
         else if \<not> truthy d then Inr base
         else (case d of
                 PDict kvs \<Rightarrow> Inr (dict_update base kvs)
               | _ \<Rightarrow> Inl (TypeError (str ''cannot update a dict from this object''))))"

text \<open>
  What \<open>_invoke\<close> yields once the operation has run and given \<open>result\<close> after
  \<open>operation_time\<close> seconds: the messages yielded in order, and the exception that ended the
  generator's \<open>try\<close> block, if one did.
\<close>

definition yielded ::
  "wording \<Rightarrow> pystr \<Rightarrow> pystr \<Rightarrow> real \<Rightarrow> simple_result \<Rightarrow> message list \<times> exn option" where
  "yielded wd action session_id operation_time result =
     (if success result then
        (case build_success_message wd action session_id operation_time (data result) of
           Inl e \<Rightarrow> ([], Some e)
         | Inr success_message \<Rightarrow>
             (let told = TextMessage success_message # blob_messages action (data result)
              in case response_data action session_id operation_time (data result) of
                   Inl e \<Rightarrow> (told, Some e)
                 | Inr echo \<Rightarrow>
                     (let echoed = told @ [JsonMessage echo,
                                          VariableMessage ''browser_action'' (PStr action),
                                          VariableMessage ''browser_success'' (PStr (str ''true''))]
                      in case set_action_variables action (data result) of
                           Inl e \<Rightarrow> (echoed, Some e)
                         | Inr variables \<Rightarrow> (echoed @ variables, None))))
      else
        (case build_error_message wd action session_id operation_time (error result) of
           Inl e \<Rightarrow> ([], Some e)
         | Inr error_message \<Rightarrow>
             ([TextMessage error_message,
               JsonMessage [(''session_id'', PStr session_id), (''action'', PStr action),
                            (''success'', PBool False),
                            (''error'', (case error result of None \<Rightarrow> PNone | Some m \<Rightarrow> PStr m)),
                            (''operation_time'', PFloat operation_time)],
               VariableMessage ''browser_success'' (PStr (str ''false''))], None)))"

text \<open>
  With the handler of \<open>_invoke\<close>:
  \<open>except Exception as e: yield text("... Exception occurred during browser operation: ...")\<close>;
  the message starts with the cross mark U+274C.
\<close>

definition report :: "wording \<Rightarrow> pystr \<Rightarrow> pystr \<Rightarrow> real \<Rightarrow> simple_result \<Rightarrow> message list" where
  "report wd action session_id operation_time result =
     (case yielded wd action session_id operation_time result of
        (messages, None) \<Rightarrow> messages
      | (messages, Some e) \<Rightarrow>
          messages @ [TextMessage ([10060] @ str '' Exception occurred during browser operation: ''
                                   @ exn_str e)])"

text \<open>A sample driver and wording for concrete runs.\<close>

definition camera :: driver where
  "camera = \<lparr>connect_over_cdp = (\<lambda>url. Inr (str ''131.0'', 1)),
             page_screenshot = (\<lambda>full_page. Inr [137, 80, 78, 71])\<rparr>"

definition plain :: wording where
  "plain = \<lparr>success_text = (\<lambda>action session_id t details. str ''ok''),
            error_text = (\<lambda>action session_id t err. str ''failed'')\<rparr>"

section \<open>Properties of the validators\<close>

lemma replace_empty_filter: "replace old [] s = filter (\<lambda>c. c \<noteq> old) s"
  by (induction s) (simp_all add: replace_def)

lemma stripped_id_filter:
  "replace underscore [] (replace hyphen [] s) =
     filter (\<lambda>c. c \<noteq> hyphen \<and> c \<noteq> underscore) s"
  by (simp add: replace_empty_filter conj_commute)

text \<open>
  Claim C10. A session id made only of hyphens and underscores is rejected, whatever
  its length: stripping the separators leaves the empty string, and the empty string
  is not alphanumeric.
\<close>

theorem validate_session_id_separators_only:
  assumes "set s \<subseteq> {hyphen, underscore}"
  shows "\<not> validate_session_id ucd (PStr s)"
proof -
  have "filter (\<lambda>c. c \<noteq> hyphen \<and> c \<noteq> underscore) s = []"
    using assms by (auto simp: filter_empty_conv)
  then show ?thesis
    by (simp add: stripped_id_filter isalnum_def)
qed

theorem validate_session_id_separators_only_witness:
  "set (str ''--__--_'') \<subseteq> {hyphen, underscore}
   \<and> length (str ''--__--_'') > 5
   \<and> \<not> validate_session_id no_wide_alnum (PStr (str ''--__--_''))"
proof -
  have h: "set (str ''--__--_'') \<subseteq> {hyphen, underscore}"
    by (simp add: str_def hyphen_def underscore_def)
  show ?thesis
    using h validate_session_id_separators_only [OF h, of no_wide_alnum]
    by (simp add: str_def)
qed

lemma validate_session_id_iff:
  "validate_session_id ucd (PStr s) \<longleftrightarrow>
     length s > 5
     \<and> filter (\<lambda>c. c \<noteq> hyphen \<and> c \<noteq> underscore) s \<noteq> []
     \<and> (\<forall>c \<in> set s. c = hyphen \<or> c = underscore \<or> isalnum_cp ucd c)"
  by (auto simp: stripped_id_filter isalnum_def list_all_iff)

lemma ascii_isalnum_cp:
  "c < 128 \<Longrightarrow> isalnum_cp ucd c \<longleftrightarrow> (65 \<le> c \<and> c \<le> 90) \<or> (97 \<le> c \<and> c \<le> 122) \<or> (48 \<le> c \<and> c \<le> 57)"
  by (auto simp: isalnum_cp_def latin1_isalnum_def)

text \<open>
  Claim C9, as stated, fails: \<open>str.isalnum\<close> accepts letters and digits outside ASCII,
  so an id such as \<open>sessi\<close>, U+00E9, \<open>n1\<close> holds a character outside
  \<open>[A-Za-z0-9_-]\<close> and is accepted.
\<close>

theorem validate_session_id_non_ascii_counterexample:
  "233 \<in> set (str ''sessi'' @ [233] @ str ''n1'')
   \<and> \<not> ascii_id_char 233
   \<and> validate_session_id no_wide_alnum (PStr (str ''sessi'' @ [233] @ str ''n1''))"
  by (simp add: str_def ascii_id_char_def hyphen_def underscore_def replace_def
      isalnum_def isalnum_cp_def latin1_isalnum_def)

text \<open>
  Claim C9, amended. An id of length at most 5 is rejected; an id holding a character
  that is neither a hyphen, an underscore nor alphanumeric for \<open>str.isalnum\<close> is
  rejected; in particular an ASCII-only id with a character outside
  \<open>[A-Za-z0-9_-]\<close> is rejected; a value that is not a string is rejected; and
  \<open>abc12345\<close> is accepted.
\<close>

theorem validate_session_id_shape:
  "(length s \<le> 5 \<longrightarrow> \<not> validate_session_id ucd (PStr s))
   \<and> ((\<exists>c \<in> set s. c \<noteq> hyphen \<and> c \<noteq> underscore \<and> \<not> isalnum_cp ucd c)
        \<longrightarrow> \<not> validate_session_id ucd (PStr s))
   \<and> ((\<forall>c \<in> set s. c < 128) \<and> (\<exists>c \<in> set s. \<not> ascii_id_char c)
        \<longrightarrow> \<not> validate_session_id ucd (PStr s))
   \<and> (\<not> isinstance_str v \<longrightarrow> \<not> validate_session_id ucd v)
   \<and> validate_session_id ucd (PStr (str ''abc12345''))"
proof (intro conjI impI)
  assume "length s \<le> 5"
  then show "\<not> validate_session_id ucd (PStr s)"
    by (simp add: validate_session_id_iff)
next
  assume "\<exists>c \<in> set s. c \<noteq> hyphen \<and> c \<noteq> underscore \<and> \<not> isalnum_cp ucd c"
  then show "\<not> validate_session_id ucd (PStr s)"
    unfolding validate_session_id_iff by blast
next
  assume a: "(\<forall>c \<in> set s. c < 128) \<and> (\<exists>c \<in> set s. \<not> ascii_id_char c)"
  then obtain c where c: "c \<in> set s" "\<not> ascii_id_char c" "c < 128"
    by blast
  then have "c \<noteq> hyphen \<and> c \<noteq> underscore \<and> \<not> isalnum_cp ucd c"
    by (auto simp: ascii_isalnum_cp ascii_id_char_def)
  with c(1) show "\<not> validate_session_id ucd (PStr s)"
    unfolding validate_session_id_iff by blast
next
  assume "\<not> isinstance_str v"
  then show "\<not> validate_session_id ucd v"
    by (cases v) simp_all
next
  show "validate_session_id ucd (PStr (str ''abc12345''))"
    by (simp add: str_def hyphen_def underscore_def replace_def
        isalnum_def isalnum_cp_def latin1_isalnum_def)
qed

theorem validate_session_id_shape_witness:
  "length (str ''ab12'') \<le> 5
   \<and> \<not> validate_session_id no_wide_alnum (PStr (str ''ab12''))
   \<and> (\<exists>c \<in> set (str ''abc 12345''). \<not> ascii_id_char c)
   \<and> \<not> validate_session_id no_wide_alnum (PStr (str ''abc 12345''))
   \<and> \<not> validate_session_id no_wide_alnum (PInt 123456)
   \<and> validate_session_id no_wide_alnum (PStr (str ''abc12345''))"
proof -
  have a: "length (str ''ab12'') \<le> 5"
    by (simp add: str_def)
  have b: "(\<forall>c \<in> set (str ''abc 12345''). c < 128)
           \<and> (\<exists>c \<in> set (str ''abc 12345''). \<not> ascii_id_char c)"
    by (simp add: str_def ascii_id_char_def hyphen_def underscore_def)
  have c: "\<not> isinstance_str (PInt 123456)"
    by simp
  show ?thesis
    using a b c
      validate_session_id_shape [of "str ''ab12''" no_wide_alnum "PInt 123456"]
      validate_session_id_shape [of "str ''abc 12345''" no_wide_alnum "PInt 123456"]
    by blast
qed

section \<open>Reasoning about client methods\<close>

lemma post_return: "P x \<Longrightarrow> post (py_return x) P"
  by (simp add: post_def py_return_def)

lemma post_raise: "post (py_raise e) P"
  by (simp add: post_def py_raise_def)

lemma post_pure: "(\<And>x. v = Inr x \<Longrightarrow> P x) \<Longrightarrow> post (pure v) P"
  by (cases v) (simp_all add: pure_def post_return post_raise)

lemma post_bind:
  assumes "post m Q" and "\<And>x. Q x \<Longrightarrow> post (f x) P"
  shows "post (py_bind m f) P"
  using assms unfolding post_def py_bind_def
  by (fastforce split: prod.splits sum.splits)

lemma post_bind_any: "(\<And>x. post (f x) P) \<Longrightarrow> post (py_bind m f) P"
  by (rule post_bind [where Q = "\<lambda>x. True"]) (simp_all add: post_def)

lemma post_try:
  assumes "post m P" and "\<And>e. post (h e) P"
  shows "post (try_except m h) P"
  using assms unfolding post_def try_except_def
  by (fastforce split: prod.splits sum.splits)

lemma post_if: "(c \<Longrightarrow> post a P) \<Longrightarrow> (\<not> c \<Longrightarrow> post b P) \<Longrightarrow> post (if c then a else b) P"
  by simp

lemma well_formed_failure: "well_formed (failure msg)"
  by (simp add: well_formed_def failure_def SimpleResult_def)

lemma post_result_envelope: "post (result_envelope result d) well_formed"
  unfolding result_envelope_def
proof (rule post_bind [where Q = "\<lambda>p. \<not> r_success result \<longrightarrow> p = PNone"])
  show "post (pure (if r_success result then d else Inr PNone))
          (\<lambda>p. \<not> r_success result \<longrightarrow> p = PNone)"
    by (rule post_pure) (simp split: if_splits)
next
  fix payload
  assume "\<not> r_success result \<longrightarrow> payload = PNone"
  then show "post (py_return (SimpleResult (r_success result) payload
                     (if \<not> r_success result then r_error_message result else None)))
               well_formed"
    by (intro post_return) (simp add: well_formed_def SimpleResult_def)
qed

lemma try_returns:
  assumes "post m P" and "\<And>e. \<exists>x. h e = py_return x \<and> P x"
  shows "\<forall>w. \<exists>x w'. try_except m h w = (Inr x, w') \<and> P x"
proof
  fix w
  obtain res w1 where mw: "m w = (res, w1)"
    by (cases "m w")
  show "\<exists>x w'. try_except m h w = (Inr x, w') \<and> P x"
  proof (cases res)
    case (Inl e)
    from assms(2) [of e] obtain x where "h e = py_return x" "P x"
      by blast
    with mw Inl show ?thesis
      by (simp add: try_except_def py_return_def)
  next
    case (Inr x)
    with mw assms(1) have "P x"
      by (auto simp: post_def)
    with mw Inr show ?thesis
      by (simp add: try_except_def)
  qed
qed

section \<open>The envelope invariant\<close>

lemma returns_well_formed_try:
  assumes "post m well_formed" and "\<And>e. \<exists>msg. h e = py_return (failure msg)"
  shows "returns_well_formed (try_except m h)"
  unfolding returns_well_formed_def
proof (rule try_returns [OF assms(1)])
  fix e
  from assms(2) [of e] show "\<exists>x. h e = py_return x \<and> well_formed x"
    by (auto simp: well_formed_failure)
qed

lemma returns_well_formed_post:
  assumes "returns_well_formed m"
  shows "post m well_formed"
  unfolding post_def
proof (intro allI impI)
  fix w x w'
  assume "m w = (Inr x, w')"
  moreover from assms obtain r w1 where "m w = (Inr r, w1)" "well_formed r"
    unfolding returns_well_formed_def by blast
  ultimately show "well_formed x"
    by simp
qed

lemma create_session_well_formed: "returns_well_formed (create_session be k image_id)"
  unfolding create_session_def
proof (rule returns_well_formed_try)
  show "\<exists>msg. (case e of AgentBayError m \<Rightarrow> py_return (failure (str ''AgentBay API error: '' @ m))
                | _ \<Rightarrow> py_return (failure (str ''Unknown error: '' @ exn_str e)))
              = (py_return (failure msg) :: ('a, simple_result) py)" for e
    by (cases e) auto
qed (intro post_bind_any post_if post_return; simp add: well_formed_def SimpleResult_def)

lemma get_session_info_well_formed: "returns_well_formed (get_session_info be k session_id)"
  unfolding get_session_info_def
proof (rule returns_well_formed_try)
  show "post (py_bind (client_call be k (GetSession session_id)) (\<lambda>result.
          if \<not> r_success result then
            py_return (failure (str ''Failed to query session info: ''
                                 @ format_opt (r_error_message result)))
          else if hasattr result ''data'' \<and> truthy (getattr_default result ''data'' PNone) then
            py_return (SimpleResult True (getattr_default result ''data'' PNone) None)
          else
            py_return (failure (str ''Session '' @ session_id
                                 @ str '' does not exist or is inaccessible'')))) well_formed"
    by (intro post_bind_any post_if post_return well_formed_failure)
       (simp add: well_formed_def SimpleResult_def)
qed blast

lemma guarded_post:
  assumes "\<And>session_info. post (rest session_info) well_formed"
  shows "post (py_bind (get_session_info be k session_id)
                 (\<lambda>session_info. if \<not> success session_info then py_return session_info
                                 else rest session_info)) well_formed"
  by (rule post_bind [OF returns_well_formed_post [OF get_session_info_well_formed]])
     (auto intro: post_return assms)

lemmas envelope_steps =
  guarded_post post_bind_any post_result_envelope post_if post_return well_formed_failure

lemma execute_command_well_formed:
  "returns_well_formed (execute_command be k session_id command timeout_ms)"
  unfolding execute_command_def
  by (rule returns_well_formed_try) (intro envelope_steps, blast)

lemma delete_session_well_formed:
  "returns_well_formed (delete_session be k session_id sync_context)"
  unfolding delete_session_def
  by (rule returns_well_formed_try) (intro envelope_steps, blast)

lemma read_file_well_formed: "returns_well_formed (read_file be k session_id file_path)"
  unfolding read_file_def
  by (rule returns_well_formed_try) (intro envelope_steps, blast)

lemma write_file_well_formed:
  "returns_well_formed (write_file be k session_id file_path content)"
  unfolding write_file_def
  by (rule returns_well_formed_try) (intro envelope_steps, blast)

lemma list_directory_well_formed:
  "returns_well_formed (list_directory be k session_id directory_path)"
  unfolding list_directory_def
  by (rule returns_well_formed_try) (intro envelope_steps, blast)

lemma run_code_well_formed: "returns_well_formed (run_code be k session_id code language)"
  unfolding run_code_def
  by (rule returns_well_formed_try) (intro envelope_steps, blast)

lemma ui_screenshot_well_formed: "returns_well_formed (ui_screenshot be k session_id)"
  unfolding ui_screenshot_def
  by (rule returns_well_formed_try) (intro envelope_steps, blast)

lemma ui_click_well_formed: "returns_well_formed (ui_click be k session_id x y)"
  unfolding ui_click_def
  by (rule returns_well_formed_try) (intro envelope_steps, blast)

lemma ui_type_well_formed: "returns_well_formed (ui_type be k session_id text)"
  unfolding ui_type_def
  by (rule returns_well_formed_try) (intro envelope_steps, blast)

lemma ui_key_well_formed: "returns_well_formed (ui_key be k session_id pressed)"
  unfolding ui_key_def
  by (rule returns_well_formed_try) (intro envelope_steps, blast)

lemma browser_initialize_well_formed: "returns_well_formed (browser_initialize be k session_id)"
  unfolding browser_initialize_def
proof (rule returns_well_formed_try)
  have ok: "well_formed (SimpleResult True d None)" for d
    by (simp add: well_formed_def SimpleResult_def)
  show "post (py_bind (get_session_info be k session_id) (\<lambda>session_info.
          if \<not> success session_info then py_return session_info
          else
            py_bind (get_session_handle be k session_id) (\<lambda>session.
            py_bind (session_value be session ''browser'' (BrowserInitialize session)) (\<lambda>result.
              if truthy result then
                py_bind (session_value be session ''browser'' (GetEndpointUrl session))
                  (\<lambda>endpoint_url.
                    py_return (SimpleResult True
                      (PDict [(''initialized'', PBool True), (''endpoint_url'', endpoint_url)])
                      None))
              else py_return (failure (str ''Browser initialization failed'')))))) well_formed"
    by (intro envelope_steps ok)
qed blast

lemma get_installed_apps_well_formed:
  "returns_well_formed (get_installed_apps be k session_id start_menu desktop ignore_system_apps)"
  unfolding get_installed_apps_def
  by (rule returns_well_formed_try) (intro envelope_steps, blast)

lemma list_windows_well_formed: "returns_well_formed (list_windows be k session_id)"
  unfolding list_windows_def
  by (rule returns_well_formed_try) (intro envelope_steps, blast)

section \<open>Exceptions of the SDK and the calls issued\<close>

lemma propagates_return: "propagates (py_return x)"
  by (simp add: propagates_def py_return_def)

lemma propagates_raise: "propagates (py_raise e)"
  by (simp add: propagates_def py_raise_def)

lemma propagates_pure: "propagates (pure v)"
  by (cases v) (simp_all add: pure_def propagates_return propagates_raise)

lemma record_call_trace:
  "record_call c out w = (res, w') \<Longrightarrow> trace w' = trace w @ [(c, raised res)]"
  by (auto simp: record_call_def)

lemma raised_Some: "(raised res = Some e) = (res = Inl e)" "(Some e = raised res) = (res = Inl e)"
  by (cases res; auto simp: raised_def)+

lemma propagates_remote: "propagates (remote be c)"
  unfolding propagates_def remote_def
  by (auto dest!: record_call_trace simp: raised_Some)

lemma propagates_remote_value: "propagates (remote_value be c)"
  unfolding propagates_def remote_value_def
  by (auto dest!: record_call_trace simp: raised_Some)

lemma propagates_client: "propagates (client be k)"
  unfolding propagates_def
proof (intro allI impI)
  fix w res w'
  assume run: "client be k w = (res, w')"
  show "\<exists>ev. trace w' = trace w @ ev \<and> (\<forall>c e. (c, Some e) \<in> set ev \<longrightarrow> res = Inl e)"
  proof (cases "client_built w")
    case True
    with run show ?thesis
      by (simp add: client_def)
  next
    case False
    obtain r w1 where rc: "record_call (NewAgentBay k) (sdk_new be k (remote_state w)) w = (r, w1)"
      by (cases "record_call (NewAgentBay k) (sdk_new be k (remote_state w)) w")
    from record_call_trace [OF rc] have tr: "trace w1 = trace w @ [(NewAgentBay k, raised r)]" .
    from run False rc tr show ?thesis
      by (cases r) (auto simp: client_def raised_def)
  qed
qed

lemma propagates_bind:
  assumes "propagates m" and "\<And>x. propagates (f x)"
  shows "propagates (py_bind m f)"
  unfolding propagates_def
proof (intro allI impI)
  fix w res w'
  assume run: "py_bind m f w = (res, w')"
  obtain r1 w1 where m: "m w = (r1, w1)"
    by (cases "m w")
  from assms(1) m obtain ev1 where ev1: "trace w1 = trace w @ ev1"
    "\<And>c e. (c, Some e) \<in> set ev1 \<Longrightarrow> r1 = Inl e"
    unfolding propagates_def by blast
  show "\<exists>ev. trace w' = trace w @ ev \<and> (\<forall>c e. (c, Some e) \<in> set ev \<longrightarrow> res = Inl e)"
  proof (cases r1)
    case (Inl e)
    with run m have "res = Inl e" "w' = w1"
      by (simp_all add: py_bind_def)
    with ev1 Inl show ?thesis
      by blast
  next
    case (Inr x)
    with run m have fx: "f x w1 = (res, w')"
      by (simp add: py_bind_def)
    from assms(2) [of x] fx obtain ev2 where ev2: "trace w' = trace w1 @ ev2"
      "\<And>c e. (c, Some e) \<in> set ev2 \<Longrightarrow> res = Inl e"
      unfolding propagates_def by blast
    have "trace w' = trace w @ (ev1 @ ev2)"
      using ev1(1) ev2(1) by simp
    moreover have "res = Inl e" if "(c, Some e) \<in> set (ev1 @ ev2)" for c e
      using that ev1(2) ev2(2) Inr by auto
    ultimately show ?thesis
      by blast
  qed
qed

lemma propagates_if: "propagates a \<Longrightarrow> propagates b \<Longrightarrow> propagates (if c then a else b)"
  by simp

lemma propagates_client_call: "propagates (client_call be k c)"
  unfolding client_call_def
  by (intro propagates_bind propagates_client propagates_remote)

lemma propagates_session_call: "propagates (session_call be session part c)"
  unfolding session_call_def
  by (intro propagates_if propagates_remote propagates_raise)

lemma propagates_session_value: "propagates (session_value be session part c)"
  unfolding session_value_def
  by (intro propagates_if propagates_remote_value propagates_raise)

lemma propagates_Session: "propagates (Session be k session_id)"
  unfolding Session_def
  by (intro propagates_bind propagates_client propagates_return)

lemma propagates_get_session_handle: "propagates (get_session_handle be k session_id)"
  unfolding get_session_handle_def
  by (intro propagates_bind propagates_client_call propagates_pure)

lemma propagates_result_envelope: "propagates (result_envelope result d)"
  unfolding result_envelope_def
  by (intro propagates_bind propagates_pure propagates_return)

lemmas propagation_steps =
  propagates_bind propagates_if propagates_client_call propagates_session_call
  propagates_session_value propagates_Session propagates_get_session_handle
  propagates_result_envelope propagates_pure propagates_return propagates_raise

lemma catches_try:
  assumes "propagates m"
    and "\<And>e. \<exists>p \<in> set prefixes. h e = py_return (failure (p @ exn_str e))"
  shows "catches prefixes (try_except m h)"
  unfolding catches_def
proof
  fix w
  obtain res w1 where m: "m w = (res, w1)"
    by (cases "m w")
  from assms(1) m obtain ev where ev: "trace w1 = trace w @ ev"
    "\<And>c e. (c, Some e) \<in> set ev \<Longrightarrow> res = Inl e"
    unfolding propagates_def by blast
  show "\<exists>r w' ev. try_except m h w = (Inr r, w') \<and> trace w' = trace w @ ev
          \<and> (\<forall>c e. (c, Some e) \<in> set ev \<longrightarrow> (\<exists>p \<in> set prefixes. r = failure (p @ exn_str e)))"
  proof (cases res)
    case (Inl e)
    from assms(2) [of e] obtain p where p: "p \<in> set prefixes"
      "h e = py_return (failure (p @ exn_str e))"
      by blast
    have "try_except m h w = (Inr (failure (p @ exn_str e)), w1)"
      using m Inl p(2) by (simp add: try_except_def py_return_def)
    moreover have "\<exists>q \<in> set prefixes. failure (p @ exn_str e) = failure (q @ exn_str e')"
      if "(c, Some e') \<in> set ev" for c e'
      using ev(2) [OF that] Inl p(1) by auto
    ultimately show ?thesis
      using ev(1) by blast
  next
    case (Inr x)
    have "try_except m h w = (Inr x, w1)"
      using m Inr by (simp add: try_except_def)
    moreover have "\<not> (c, Some e) \<in> set ev" for c e
      using ev(2) [of c e] Inr by auto
    ultimately show ?thesis
      using ev(1) by blast
  qed
qed

lemma failure_not_success: "\<not> success (failure msg)"
  by (simp add: failure_def SimpleResult_def)

lemma catches_guarded:
  assumes pre: "catches [g] check"
    and rest: "\<And>session_info. propagates (rest session_info)"
    and h: "\<And>e. h e = py_return (failure (p @ exn_str e))"
  shows "catches [p, g]
           (try_except (py_bind check (\<lambda>session_info.
              if \<not> success session_info then py_return session_info
              else rest session_info)) h)"
  unfolding catches_def
proof
  fix w
  let ?body = "py_bind check (\<lambda>session_info.
                 if \<not> success session_info then py_return session_info else rest session_info)"
  from pre [unfolded catches_def]
  have "\<exists>r w' ev. check w = (Inr r, w') \<and> trace w' = trace w @ ev
          \<and> (\<forall>c e. (c, Some e) \<in> set ev \<longrightarrow> (\<exists>q \<in> set [g]. r = failure (q @ exn_str e)))"
    by (rule spec)
  then obtain info w1 ev1 where c: "check w = (Inr info, w1)" "trace w1 = trace w @ ev1"
    and c3: "\<forall>c e. (c, Some e) \<in> set ev1 \<longrightarrow> (\<exists>q \<in> set [g]. info = failure (q @ exn_str e))"
    by blast
  have lookup: "info = failure (g @ exn_str e)" if "(c, Some e) \<in> set ev1" for c e
    using c3 that by simp
  show "\<exists>r w' ev. try_except ?body h w = (Inr r, w') \<and> trace w' = trace w @ ev
          \<and> (\<forall>c e. (c, Some e) \<in> set ev \<longrightarrow> (\<exists>q \<in> set [p, g]. r = failure (q @ exn_str e)))"
  proof (cases "success info")
    case False
    then have run: "try_except ?body h w = (Inr info, w1)"
      using c(1) by (simp add: try_except_def py_bind_def py_return_def)
    have "\<exists>q \<in> set [p, g]. info = failure (q @ exn_str e)" if "(c, Some e) \<in> set ev1" for c e
      using lookup [OF that] by simp
    with run c(2) show ?thesis
      by blast
  next
    case True
    have quiet: "(c, Some e) \<notin> set ev1" for c e
    proof
      assume "(c, Some e) \<in> set ev1"
      from lookup [OF this] True show False
        by (simp add: failure_not_success)
    qed
    obtain res w2 where r: "rest info w1 = (res, w2)"
      by (cases "rest info w1")
    from rest [of info, unfolded propagates_def] r
    have "\<exists>ev. trace w2 = trace w1 @ ev \<and> (\<forall>c e. (c, Some e) \<in> set ev \<longrightarrow> res = Inl e)"
      by blast
    then obtain ev2 where ev2: "trace w2 = trace w1 @ ev2"
      and ev2r: "\<forall>c e. (c, Some e) \<in> set ev2 \<longrightarrow> res = Inl e"
      by blast
    have body: "?body w = (res, w2)"
      using c(1) True r by (simp add: py_bind_def)
    have tr: "trace w2 = trace w @ (ev1 @ ev2)"
      using c(2) ev2 by simp
    have later: "res = Inl e" if "(c, Some e) \<in> set (ev1 @ ev2)" for c e
      using that quiet [of c e] ev2r by simp
    show ?thesis
    proof (cases res)
      case (Inl e)
      have run: "try_except ?body h w = (Inr (failure (p @ exn_str e)), w2)"
        using body Inl h by (simp add: try_except_def py_return_def)
      have "\<exists>q \<in> set [p, g]. failure (p @ exn_str e) = failure (q @ exn_str e')"
        if "(c, Some e') \<in> set (ev1 @ ev2)" for c e'
        using later [OF that] Inl by simp
      with run tr show ?thesis
        by blast
    next
      case (Inr x)
      have run: "try_except ?body h w = (Inr x, w2)"
        using body Inr by (simp add: try_except_def)
      have "(c, Some e) \<notin> set (ev1 @ ev2)" for c e
        using later [of c e] Inr by auto
      with run tr show ?thesis
        by blast
    qed
  qed
qed

lemma get_session_info_catches: "catches [lookup_prefix] (get_session_info be k session_id)"
  unfolding get_session_info_def lookup_prefix_def
  by (rule catches_try) (intro propagation_steps, simp)

lemma create_session_catches:
  "catches [str ''AgentBay API error: '', str ''Unknown error: '']
     (create_session be k image_id)"
  unfolding create_session_def
proof (rule catches_try)
  fix e
  let ?h = "case e of
      AgentBayError m \<Rightarrow> py_return (failure (str ''AgentBay API error: '' @ m))
    | _ \<Rightarrow> (py_return (failure (str ''Unknown error: '' @ exn_str e)) :: ('a, simple_result) py)"
  have "?h = py_return (failure (str ''AgentBay API error: '' @ exn_str e))
        \<or> ?h = py_return (failure (str ''Unknown error: '' @ exn_str e))"
    by (cases e) simp_all
  then show "\<exists>p \<in> set [str ''AgentBay API error: '', str ''Unknown error: ''].
               ?h = py_return (failure (p @ exn_str e))"
    by (simp only: list.set bex_simps insert_iff empty_iff) blast
qed (intro propagation_steps)

lemma execute_command_catches:
  "catches [str ''Command execution failed: '', lookup_prefix]
     (execute_command be k session_id command timeout_ms)"
  unfolding execute_command_def
  by (rule catches_guarded [OF get_session_info_catches]) (intro propagation_steps, rule refl)

lemma delete_session_catches:
  "catches [str ''Session deletion failed: '', lookup_prefix]
     (delete_session be k session_id sync_context)"
  unfolding delete_session_def
  by (rule catches_guarded [OF get_session_info_catches]) (intro propagation_steps, rule refl)

lemma read_file_catches:
  "catches [str ''Failed to read file: '', lookup_prefix] (read_file be k session_id file_path)"
  unfolding read_file_def
  by (rule catches_guarded [OF get_session_info_catches]) (intro propagation_steps, rule refl)

lemma write_file_catches:
  "catches [str ''Failed to write file: '', lookup_prefix]
     (write_file be k session_id file_path content)"
  unfolding write_file_def
  by (rule catches_guarded [OF get_session_info_catches]) (intro propagation_steps, rule refl)

lemma list_directory_catches:
  "catches [str ''Failed to list directory: '', lookup_prefix]
     (list_directory be k session_id directory_path)"
  unfolding list_directory_def
  by (rule catches_guarded [OF get_session_info_catches]) (intro propagation_steps, rule refl)

lemma run_code_catches:
  "catches [str ''Code execution failed: '', lookup_prefix]
     (run_code be k session_id code language)"
  unfolding run_code_def
  by (rule catches_guarded [OF get_session_info_catches]) (intro propagation_steps, rule refl)

lemma browser_initialize_catches:
  "catches [str ''Browser initialization failed: '', lookup_prefix]
     (browser_initialize be k session_id)"
  unfolding browser_initialize_def
  by (rule catches_guarded [OF get_session_info_catches]) (intro propagation_steps, rule refl)

lemma get_installed_apps_catches:
  "catches [str ''Failed to get app list: '', lookup_prefix]
     (get_installed_apps be k session_id start_menu desktop ignore_system_apps)"
  unfolding get_installed_apps_def
  by (rule catches_guarded [OF get_session_info_catches]) (intro propagation_steps, rule refl)

lemma list_windows_catches:
  "catches [str ''Failed to list windows: '', lookup_prefix] (list_windows be k session_id)"
  unfolding list_windows_def
  by (rule catches_guarded [OF get_session_info_catches]) (intro propagation_steps, rule refl)

section \<open>Which calls a method issues\<close>

lemma calls_only_return: "calls_only A (py_return x)"
  by (simp add: calls_only_def py_return_def)

lemma calls_only_raise: "calls_only A (py_raise e)"
  by (simp add: calls_only_def py_raise_def)

lemma calls_only_pure: "calls_only A (pure v)"
  by (cases v) (simp_all add: pure_def calls_only_return calls_only_raise)

lemma calls_only_remote: "A c \<Longrightarrow> calls_only A (remote be c)"
  unfolding calls_only_def remote_def
  by (auto dest!: record_call_trace)

lemma calls_only_remote_value: "A c \<Longrightarrow> calls_only A (remote_value be c)"
  unfolding calls_only_def remote_value_def
  by (auto dest!: record_call_trace)

lemma calls_only_client:
  assumes "A (NewAgentBay k)"
  shows "calls_only A (client be k)"
  unfolding calls_only_def
proof (intro allI impI)
  fix w res w'
  assume run: "client be k w = (res, w')"
  show "\<exists>ev. trace w' = trace w @ ev \<and> (\<forall>c out. (c, out) \<in> set ev \<longrightarrow> A c)"
  proof (cases "client_built w")
    case True
    with run show ?thesis
      by (simp add: client_def)
  next
    case False
    obtain r w1 where rc: "record_call (NewAgentBay k) (sdk_new be k (remote_state w)) w = (r, w1)"
      by (cases "record_call (NewAgentBay k) (sdk_new be k (remote_state w)) w")
    from record_call_trace [OF rc] have tr: "trace w1 = trace w @ [(NewAgentBay k, raised r)]" .
    from run False rc tr assms show ?thesis
      by (cases r) (auto simp: client_def)
  qed
qed

lemma calls_only_bind:
  assumes "calls_only A m" and "\<And>x. calls_only A (f x)"
  shows "calls_only A (py_bind m f)"
  unfolding calls_only_def
proof (intro allI impI)
  fix w res w'
  assume run: "py_bind m f w = (res, w')"
  obtain r1 w1 where m: "m w = (r1, w1)"
    by (cases "m w")
  from assms(1) [unfolded calls_only_def] m
  have "\<exists>ev. trace w1 = trace w @ ev \<and> (\<forall>c out. (c, out) \<in> set ev \<longrightarrow> A c)"
    by blast
  then obtain ev1 where ev1: "trace w1 = trace w @ ev1" "\<forall>c out. (c, out) \<in> set ev1 \<longrightarrow> A c"
    by blast
  show "\<exists>ev. trace w' = trace w @ ev \<and> (\<forall>c out. (c, out) \<in> set ev \<longrightarrow> A c)"
  proof (cases r1)
    case (Inl e)
    with run m have "w' = w1"
      by (simp add: py_bind_def)
    with ev1 show ?thesis
      by blast
  next
    case (Inr x)
    with run m have fx: "f x w1 = (res, w')"
      by (simp add: py_bind_def)
    from assms(2) [of x, unfolded calls_only_def] fx
    have "\<exists>ev. trace w' = trace w1 @ ev \<and> (\<forall>c out. (c, out) \<in> set ev \<longrightarrow> A c)"
      by blast
    then obtain ev2 where ev2: "trace w' = trace w1 @ ev2"
      "\<forall>c out. (c, out) \<in> set ev2 \<longrightarrow> A c"
      by blast
    have "trace w' = trace w @ (ev1 @ ev2)"
      using ev1(1) ev2(1) by simp
    moreover have "\<forall>c out. (c, out) \<in> set (ev1 @ ev2) \<longrightarrow> A c"
      using ev1(2) ev2(2) by auto
    ultimately show ?thesis
      by blast
  qed
qed

lemma calls_only_try:
  assumes "calls_only A m" and "\<And>e. calls_only A (h e)"
  shows "calls_only A (try_except m h)"
  unfolding calls_only_def
proof (intro allI impI)
  fix w res w'
  assume run: "try_except m h w = (res, w')"
  obtain r1 w1 where m: "m w = (r1, w1)"
    by (cases "m w")
  from assms(1) [unfolded calls_only_def] m
  have "\<exists>ev. trace w1 = trace w @ ev \<and> (\<forall>c out. (c, out) \<in> set ev \<longrightarrow> A c)"
    by blast
  then obtain ev1 where ev1: "trace w1 = trace w @ ev1" "\<forall>c out. (c, out) \<in> set ev1 \<longrightarrow> A c"
    by blast
  show "\<exists>ev. trace w' = trace w @ ev \<and> (\<forall>c out. (c, out) \<in> set ev \<longrightarrow> A c)"
  proof (cases r1)
    case (Inr x)
    with run m have "w' = w1"
      by (simp add: try_except_def)
    with ev1 show ?thesis
      by blast
  next
    case (Inl e)
    with run m have he: "h e w1 = (res, w')"
      by (simp add: try_except_def)
    from assms(2) [of e, unfolded calls_only_def] he
    have "\<exists>ev. trace w' = trace w1 @ ev \<and> (\<forall>c out. (c, out) \<in> set ev \<longrightarrow> A c)"
      by blast
    then obtain ev2 where ev2: "trace w' = trace w1 @ ev2"
      "\<forall>c out. (c, out) \<in> set ev2 \<longrightarrow> A c"
      by blast
    have "trace w' = trace w @ (ev1 @ ev2)"
      using ev1(1) ev2(1) by simp
    moreover have "\<forall>c out. (c, out) \<in> set (ev1 @ ev2) \<longrightarrow> A c"
      using ev1(2) ev2(2) by auto
    ultimately show ?thesis
      by blast
  qed
qed

lemma calls_only_if: "calls_only A a \<Longrightarrow> calls_only A b \<Longrightarrow> calls_only A (if c then a else b)"
  by simp

lemma calls_only_client_call:
  "A (NewAgentBay k) \<Longrightarrow> A c \<Longrightarrow> calls_only A (client_call be k c)"
  unfolding client_call_def
  by (intro calls_only_bind calls_only_client calls_only_remote)

lemma calls_only_get_session_info:
  "calls_only (\<lambda>c. c = NewAgentBay k \<or> c = GetSession session_id)
     (get_session_info be k session_id)"
  unfolding get_session_info_def
  by (intro calls_only_try calls_only_bind calls_only_client_call calls_only_if
      calls_only_return) simp_all

lemma calls_only_create_session:
  "calls_only (\<lambda>c. c = NewAgentBay k \<or> c = Create image_id dify_labels)
     (create_session be k image_id)"
  unfolding create_session_def
proof (intro calls_only_try calls_only_bind calls_only_client_call calls_only_if
    calls_only_return calls_only_pure)
  show "calls_only (\<lambda>c. c = NewAgentBay k \<or> c = Create image_id dify_labels)
          (case e of AgentBayError m \<Rightarrow> py_return (failure (str ''AgentBay API error: '' @ m))
           | _ \<Rightarrow> py_return (failure (str ''Unknown error: '' @ exn_str e)))" for e
    by (cases e) (simp_all add: calls_only_return)
qed simp_all

section \<open>The pagination loop\<close>

lemma client_call_events:
  assumes "client_call be k c w = (res, w')"
  shows "\<exists>ev. trace w' = trace w @ ev
           \<and> (\<forall>c' e. (c', Some e) \<in> set ev \<longrightarrow> res = Inl e)
           \<and> (\<forall>c' out. (c', out) \<in> set ev \<longrightarrow> c' = NewAgentBay k \<or> c' = c)"
proof -
  from propagates_client_call [of be k c, unfolded propagates_def] assms
  have "\<exists>ev. trace w' = trace w @ ev \<and> (\<forall>c' e. (c', Some e) \<in> set ev \<longrightarrow> res = Inl e)"
    by blast
  then obtain ev1 where ev1: "trace w' = trace w @ ev1"
    "\<forall>c' e. (c', Some e) \<in> set ev1 \<longrightarrow> res = Inl e"
    by blast
  have "calls_only (\<lambda>c'. c' = NewAgentBay k \<or> c' = c) (client_call be k c)"
    by (rule calls_only_client_call) simp_all
  from this [unfolded calls_only_def] assms
  have "\<exists>ev. trace w' = trace w @ ev
          \<and> (\<forall>c' out. (c', out) \<in> set ev \<longrightarrow> c' = NewAgentBay k \<or> c' = c)"
    by blast
  then obtain ev2 where ev2: "trace w' = trace w @ ev2"
    "\<forall>c' out. (c', out) \<in> set ev2 \<longrightarrow> c' = NewAgentBay k \<or> c' = c"
    by blast
  from ev1(1) ev2(1) have "ev1 = ev2"
    by simp
  with ev1 ev2 show ?thesis
    by blast
qed

lemma loop_exit_now:
  assumes "client_call be k (ListSessions dify_labels page 100) w = (res, w')"
    and "\<And>e. (\<exists>c. (c, Some e) \<in> set (drop (length (trace w)) (trace w'))) \<Longrightarrow> r = Inl e"
    and "\<And>early. r = Inr (Inl early) \<Longrightarrow> \<exists>msg. early = failure msg"
  shows "loop_exit k w (r, w')"
proof -
  from client_call_events [OF assms(1)] obtain ev where ev: "trace w' = trace w @ ev"
    "\<forall>c' e. (c', Some e) \<in> set ev \<longrightarrow> res = Inl e"
    "\<forall>c' out. (c', out) \<in> set ev \<longrightarrow> c' = NewAgentBay k \<or> c' = ListSessions dify_labels page 100"
    by blast
  have "drop (length (trace w)) (trace w') = ev"
    using ev(1) by simp
  with assms(2) have "\<forall>c e. (c, Some e) \<in> set ev \<longrightarrow> r = Inl e"
    by blast
  with ev(1,3) assms(3) show ?thesis
    unfolding loop_exit_def by auto
qed

lemma loop_exit_later:
  assumes "client_call be k (ListSessions dify_labels page 100) w = (Inr result, w1)"
    and "loop_exit k w1 out"
  shows "loop_exit k w out"
proof -
  from client_call_events [OF assms(1)] obtain ev1 where ev1: "trace w1 = trace w @ ev1"
    "\<forall>c' e. (c', Some e) \<in> set ev1 \<longrightarrow> Inr result = (Inl e :: exn + sdk_result)"
    "\<forall>c' out. (c', out) \<in> set ev1 \<longrightarrow> c' = NewAgentBay k \<or> c' = ListSessions dify_labels page 100"
    by blast
  from assms(2) obtain ev2 where ev2: "trace (snd out) = trace w1 @ ev2"
    "\<forall>c e. (c, Some e) \<in> set ev2 \<longrightarrow> fst out = Inl e"
    "\<forall>c res. (c, res) \<in> set ev2 \<longrightarrow>
        c = NewAgentBay k \<or> (\<exists>page. c = ListSessions dify_labels page 100)"
    "\<forall>early. fst out = Inr (Inl early) \<longrightarrow> (\<exists>msg. early = failure msg)"
    unfolding loop_exit_def by blast
  have "trace (snd out) = trace w @ (ev1 @ ev2)"
    using ev1(1) ev2(1) by simp
  moreover have "\<forall>c e. (c, Some e) \<in> set (ev1 @ ev2) \<longrightarrow> fst out = Inl e"
    using ev1(2) ev2(2) by auto
  moreover have "\<forall>c res. (c, res) \<in> set (ev1 @ ev2) \<longrightarrow>
        c = NewAgentBay k \<or> (\<exists>page. c = ListSessions dify_labels page 100)"
    using ev1(3) ev2(3) by auto
  ultimately show ?thesis
    unfolding loop_exit_def using ev2(4) by blast
qed

lemma list_pages_exit:
  assumes "list_pages be k page ids w = Some out"
  shows "loop_exit k w out"
  using assms
proof (induction be k page ids w out rule: list_pages.raw_induct [rotated 1, consumes 1, case_names step])
  case (step loop be k page ids w out)
  obtain res w1 where cc: "client_call be k (ListSessions dify_labels page 100) w = (res, w1)"
    by (cases "client_call be k (ListSessions dify_labels page 100) w")
  from client_call_events [OF cc] have quiet:
    "\<exists>ev. trace w1 = trace w @ ev \<and> (\<forall>c' e. (c', Some e) \<in> set ev \<longrightarrow> res = Inl e)"
    by blast
  have raising: "res = Inl e" if "\<exists>c. (c, Some e) \<in> set (drop (length (trace w)) (trace w1))" for e
    using quiet that by auto
  show ?case
  proof (cases res)
    case (Inl e)
    with step.hyps cc have "out = (Inl e, w1)"
      by simp
    moreover have "loop_exit k w (Inl e, w1)"
      using raising Inl by (intro loop_exit_now [OF cc]) auto
    ultimately show ?thesis
      by simp
  next
    case (Inr result)
    note res = Inr
    show ?thesis
    proof (cases "r_success result")
      case False
      with step.hyps cc res have "out = (Inr (Inl (failure (str ''Failed to query session list: ''
                                      @ format_opt (r_error_message result)))), w1)"
        by simp
      moreover have "loop_exit k w (Inr (Inl (failure (str ''Failed to query session list: ''
                                      @ format_opt (r_error_message result)))), w1)"
        using raising res by (intro loop_exit_now [OF cc]) auto
      ultimately show ?thesis
        by simp
    next
      case True
      show ?thesis
      proof (cases "page_step result ids")
        case (Inl e)
        with step.hyps cc res True have "out = (Inl e, w1)"
          by simp
        moreover have "loop_exit k w (Inl e, w1)"
          using raising res by (intro loop_exit_now [OF cc]) auto
        ultimately show ?thesis
          by simp
      next
        case (Inr step)
        obtain stop gathered where step: "step = (stop, gathered)"
          by (cases step)
        show ?thesis
        proof (cases stop)
          case True
          with step.hyps cc res \<open>r_success result\<close> Inr step have "out = (Inr (Inr gathered), w1)"
            by simp
          moreover have "loop_exit k w (Inr (Inr gathered), w1)"
            using raising res by (intro loop_exit_now [OF cc]) auto
          ultimately show ?thesis
            by simp
        next
          case False
          with step.hyps cc res \<open>r_success result\<close> Inr step
          have "loop be k (page + 1) gathered w1 = Some out"
            by simp
          from step.IH [OF this] have "loop_exit k w1 out" .
          with cc res show ?thesis
            by (auto intro: loop_exit_later)
        qed
      qed
    qed
  qed
qed

lemma list_sessions_exit:
  assumes "list_sessions be k w = Some out"
  shows "\<exists>r w' ev. out = (Inr r, w') \<and> well_formed r \<and> trace w' = trace w @ ev
           \<and> (\<forall>c e. (c, Some e) \<in> set ev
                 \<longrightarrow> r = failure (str ''Failed to list sessions: '' @ exn_str e))
           \<and> (\<forall>c res. (c, res) \<in> set ev \<longrightarrow>
                 c = NewAgentBay k \<or> (\<exists>page. c = ListSessions dify_labels page 100))"
proof -
  from assms obtain res w1 where lp: "list_pages be k 1 [] w = Some (res, w1)"
    by (cases "list_pages be k 1 [] w") (auto simp: list_sessions_def)
  from list_pages_exit [OF lp] obtain ev where ev: "trace w1 = trace w @ ev"
    "\<forall>c e. (c, Some e) \<in> set ev \<longrightarrow> res = Inl e"
    "\<forall>c r. (c, r) \<in> set ev \<longrightarrow>
        c = NewAgentBay k \<or> (\<exists>page. c = ListSessions dify_labels page 100)"
    "\<forall>early. res = Inr (Inl early) \<longrightarrow> (\<exists>msg. early = failure msg)"
    unfolding loop_exit_def by auto
  show ?thesis
  proof (cases res)
    case (Inl e)
    with assms lp have "out = (Inr (failure (str ''Failed to list sessions: '' @ exn_str e)), w1)"
      by (simp add: list_sessions_def)
    with ev(1,2,3) Inl show ?thesis
      by (auto simp: well_formed_failure)
  next
    case (Inr inner)
    note res = Inr
    have quiet: "(c, Some e) \<notin> set ev" for c e
      using ev(2) res by auto
    show ?thesis
    proof (cases inner)
      case (Inl early)
      with assms lp res have "out = (Inr early, w1)"
        by (simp add: list_sessions_def)
      moreover from ev(4) res Inl have "well_formed early"
        by (auto simp: well_formed_failure)
      ultimately show ?thesis
        using ev(1,3) quiet by auto
    next
      case (Inr ids)
      with assms lp res have "out = (Inr (SimpleResult True
                  (PDict [(''sessions'', PList (map session_entry ids)),
                          (''count'', PInt (int (length ids)))]) None), w1)"
        by (simp add: list_sessions_def)
      moreover have "well_formed (SimpleResult True d None)" for d
        by (simp add: well_formed_def SimpleResult_def)
      ultimately show ?thesis
        using ev(1,3) quiet by auto
    qed
  qed
qed

lemma next_page_same_run:
  assumes "next_page be k cfg cfg'"
  shows "list_pages be k (fst cfg) (fst (snd cfg)) (snd (snd cfg))
           = list_pages be k (fst cfg') (fst (snd cfg')) (snd (snd cfg'))"
  using assms
proof cases
  case (1 page w result w' ids gathered)
  then show ?thesis
    by (simp add: list_pages.simps [of be k page ids w])
qed

lemma reaches_same_run:
  assumes "reaches be k w cfg"
  shows "list_pages be k 1 [] w = list_pages be k (fst cfg) (fst (snd cfg)) (snd (snd cfg))"
  using assms
proof induction
  case start
  show ?case
    by simp
next
  case (round cfg cfg')
  with next_page_same_run [of be k cfg cfg'] show ?case
    by simp
qed

lemma list_sessions_raise_at:
  assumes "reaches be k w (page, ids, wn)"
    and "client_call be k (ListSessions dify_labels page 100) wn = (Inl e, w')"
  shows "list_sessions be k w
           = Some (Inr (failure (str ''Failed to list sessions: '' @ exn_str e)), w')"
proof -
  have "list_pages be k page ids wn = Some (Inl e, w')"
    using assms(2) by (simp add: list_pages.simps [of be k page ids wn])
  with reaches_same_run [OF assms(1)] have "list_pages be k 1 [] w = Some (Inl e, w')"
    by simp
  then show ?thesis
    by (simp add: list_sessions_def)
qed

lemma list_pages_last_round:
  assumes "\<forall>cfg'. \<not> next_page be k (page, ids, wn) cfg'"
  shows "\<exists>out. list_pages be k page ids wn = Some out"
proof -
  obtain res w1 where cc: "client_call be k (ListSessions dify_labels page 100) wn = (res, w1)"
    by (cases "client_call be k (ListSessions dify_labels page 100) wn")
  show ?thesis
  proof (cases res)
    case (Inl e)
    with cc show ?thesis
      by (simp add: list_pages.simps [of be k page ids wn])
  next
    case (Inr result)
    note res = Inr
    show ?thesis
    proof (cases "r_success result")
      case False
      with cc res show ?thesis
        by (simp add: list_pages.simps [of be k page ids wn])
    next
      case True
      show ?thesis
      proof (cases "page_step result ids")
        case (Inl e)
        with cc res True show ?thesis
          by (simp add: list_pages.simps [of be k page ids wn])
      next
        case (Inr step)
        obtain stop gathered where step: "step = (stop, gathered)"
          by (cases step)
        have stop
        proof (rule ccontr)
          assume "\<not> stop"
          with cc res True Inr step
          have "next_page be k (page, ids, wn) (page + 1, gathered, w1)"
            by (intro next_page.intros) simp_all
          with assms show False
            by blast
        qed
        with cc res True Inr step show ?thesis
          by (simp add: list_pages.simps [of be k page ids wn])
      qed
    qed
  qed
qed

lemma list_sessions_returns:
  assumes "reaches be k w cfg" and "\<forall>cfg'. \<not> next_page be k cfg cfg'"
  shows "\<exists>out. list_sessions be k w = Some out"
proof -
  obtain page ids wn where cfg: "cfg = (page, ids, wn)"
    by (cases cfg)
  from list_pages_last_round [of be k page ids wn] assms(2) cfg
  obtain out where "list_pages be k page ids wn = Some out"
    by blast
  with reaches_same_run [OF assms(1)] cfg have lp: "list_pages be k 1 [] w = Some out"
    by simp
  obtain res w' where out: "out = (res, w')"
    by (cases out)
  show ?thesis
  proof (cases res)
    case (Inl e)
    with lp out show ?thesis
      by (simp add: list_sessions_def)
  next
    case (Inr inner)
    with lp out show ?thesis
      by (cases inner) (simp_all add: list_sessions_def)
  qed
qed

section \<open>Concrete runs\<close>

lemmas run_defs =
  try_except_def py_bind_def py_return_def py_raise_def pure_def client_call_def client_def
  remote_def remote_value_def record_call_def raised_def scripted_def fresh_def found_def
  handle_def ok_result_def Session_def session_call_def session_value_def
  get_session_handle_def result_envelope_def hasattr_def getattr_def getattr_default_def
  and_then_def failure_def SimpleResult_def get_session_info_def

lemma run_command_ok:
  "execute_command scripted key (str ''s-1234567'') (str ''ls'') 30000
     (fresh [found, Returns (ok_result [(''output'', PStr (str ''a.txt''))])])
   = (Inr (SimpleResult True
        (PDict [(''output'', PStr (str ''a.txt'')), (''error'', PNone), (''exit_code'', PNone)])
        None),
      \<lparr>remote_state = [], client_built = True,
       trace = [(NewAgentBay key, None), (GetSession (str ''s-1234567''), None),
                (ExecuteCommand (PObj [(''session_id'', PStr (str ''s-1234567''))])
                   (str ''ls'') 30000, None)]\<rparr>)"
  by (simp add: execute_command_def run_defs)

lemma run_command_raises:
  "execute_command scripted key (str ''s-1234567'') (str ''ls'') 30000
     (fresh [found, Raises (Exception (str ''boom''))])
   = (Inr (failure (str ''Command execution failed: '' @ str ''boom'')),
      \<lparr>remote_state = [], client_built = True,
       trace = [(NewAgentBay key, None), (GetSession (str ''s-1234567''), None),
                (ExecuteCommand (PObj [(''session_id'', PStr (str ''s-1234567''))])
                   (str ''ls'') 30000, Some (Exception (str ''boom'')))]\<rparr>)"
  by (simp add: execute_command_def run_defs)

lemma run_lookup_absent:
  "get_session_info scripted key (str ''s-1234567'') (fresh [Returns (ok_result [])])
   = (Inr (failure (str ''Session '' @ str ''s-1234567''
                     @ str '' does not exist or is inaccessible'')),
      \<lparr>remote_state = [], client_built = True,
       trace = [(NewAgentBay key, None), (GetSession (str ''s-1234567''), None)]\<rparr>)"
  by (simp add: run_defs)

section \<open>The claims about the client\<close>

text \<open>
  Claim C1. Every public method of the client returns, from every world and for every
  argument, an envelope in which success carries no error and failure carries no data.
  \<open>list_sessions\<close>, whose loop need not end, does so whenever it returns, and it
  returns whenever its loop reaches a round after which no further page is asked for.
\<close>

theorem envelope_invariant:
  "returns_well_formed (create_session be k image_id)
   \<and> returns_well_formed (get_session_info be k session_id)
   \<and> returns_well_formed (execute_command be k session_id command timeout_ms)
   \<and> returns_well_formed (delete_session be k session_id sync_context)
   \<and> returns_well_formed (read_file be k session_id file_path)
   \<and> returns_well_formed (write_file be k session_id file_path content)
   \<and> returns_well_formed (list_directory be k session_id directory_path)
   \<and> returns_well_formed (run_code be k session_id code language)
   \<and> returns_well_formed (ui_screenshot be k session_id)
   \<and> returns_well_formed (ui_click be k session_id x y)
   \<and> returns_well_formed (ui_type be k session_id text)
   \<and> returns_well_formed (ui_key be k session_id pressed)
   \<and> returns_well_formed (browser_initialize be k session_id)
   \<and> returns_well_formed (get_installed_apps be k session_id start_menu desktop ignore_system_apps)
   \<and> returns_well_formed (list_windows be k session_id)
   \<and> (\<forall>out. list_sessions be k w = Some out
          \<longrightarrow> (\<exists>r w'. out = (Inr r, w') \<and> well_formed r))
   \<and> ((\<exists>cfg. reaches be k w cfg \<and> (\<forall>cfg'. \<not> next_page be k cfg cfg'))
          \<longrightarrow> (\<exists>r w'. list_sessions be k w = Some (Inr r, w') \<and> well_formed r))"
proof -
  have a: "\<exists>r w'. out = (Inr r, w') \<and> well_formed r" if "list_sessions be k w = Some out" for out
    using list_sessions_exit [OF that] by blast
  have a': "\<forall>out. list_sessions be k w = Some out
          \<longrightarrow> (\<exists>r w'. out = (Inr r, w') \<and> well_formed r)"
    by (intro allI impI) (erule a)
  have b': "(\<exists>cfg. reaches be k w cfg \<and> (\<forall>cfg'. \<not> next_page be k cfg cfg'))
          \<longrightarrow> (\<exists>r w'. list_sessions be k w = Some (Inr r, w') \<and> well_formed r)"
  proof
    assume "\<exists>cfg. reaches be k w cfg \<and> (\<forall>cfg'. \<not> next_page be k cfg cfg')"
    then obtain cfg where "reaches be k w cfg" "\<forall>cfg'. \<not> next_page be k cfg cfg'"
      by blast
    from list_sessions_returns [OF this] obtain out where out: "list_sessions be k w = Some out"
      by blast
    from a [OF out] obtain r w' where "out = (Inr r, w')" "well_formed r"
      by blast
    with out show "\<exists>r w'. list_sessions be k w = Some (Inr r, w') \<and> well_formed r"
      by blast
  qed
  show ?thesis
    by (intro conjI create_session_well_formed get_session_info_well_formed
        execute_command_well_formed delete_session_well_formed read_file_well_formed
        write_file_well_formed list_directory_well_formed run_code_well_formed
        ui_screenshot_well_formed ui_click_well_formed ui_type_well_formed ui_key_well_formed
        browser_initialize_well_formed get_installed_apps_well_formed
        list_windows_well_formed a' b')
qed

theorem envelope_invariant_witness:
  "(\<exists>r w'. execute_command scripted key (str ''s-1234567'') (str ''ls'') 30000
              (fresh [found, Returns (ok_result [(''output'', PStr (str ''a.txt''))])])
            = (Inr r, w') \<and> success r \<and> error r = None)
   \<and> (\<exists>r w'. execute_command scripted key (str ''s-1234567'') (str ''ls'') 30000
                (fresh [found, Raises (Exception (str ''boom''))])
              = (Inr r, w') \<and> \<not> success r \<and> data r = PNone)"
proof -
  let ?m = "execute_command scripted key (str ''s-1234567'') (str ''ls'') 30000"
  have wf: "returns_well_formed ?m"
    using envelope_invariant [of scripted key _ _ "str ''ls''" 30000] by blast
  from wf obtain r1 w1
    where r1: "?m (fresh [found, Returns (ok_result [(''output'', PStr (str ''a.txt''))])])
                = (Inr r1, w1)" "well_formed r1"
    unfolding returns_well_formed_def by blast
  from r1(1) have "success r1"
    by (auto simp: run_command_ok SimpleResult_def)
  with r1 have first: "\<exists>r w'. ?m (fresh [found, Returns (ok_result [(''output'', PStr (str ''a.txt''))])])
                = (Inr r, w') \<and> success r \<and> error r = None"
    unfolding well_formed_def by blast
  from wf obtain r2 w2
    where r2: "?m (fresh [found, Raises (Exception (str ''boom''))]) = (Inr r2, w2)"
      "well_formed r2"
    unfolding returns_well_formed_def by blast
  from r2(1) have "\<not> success r2"
    by (auto simp: run_command_raises failure_def SimpleResult_def)
  with r2 have "\<exists>r w'. ?m (fresh [found, Raises (Exception (str ''boom''))]) = (Inr r, w')
                  \<and> \<not> success r \<and> data r = PNone"
    unfolding well_formed_def by blast
  with first show ?thesis
    by blast
qed

text \<open>
  Claim C2. Every listed method returns an envelope from every world, whatever the
  backend does: no exception leaves it. Whenever a call to the SDK raised \<open>e\<close> during
  the method, the envelope is the failure whose message is the method's prefix (or
  the prefix of the existence lookup) followed by \<open>str(e)\<close>. For \<open>list_sessions\<close> this
  holds of every run that returns, and a run whose page request raises does return.
\<close>

theorem exceptions_become_failures:
  "catches [str ''AgentBay API error: '', str ''Unknown error: ''] (create_session be k image_id)
   \<and> catches [lookup_prefix] (get_session_info be k session_id)
   \<and> catches [str ''Command execution failed: '', lookup_prefix]
        (execute_command be k session_id command timeout_ms)
   \<and> catches [str ''Session deletion failed: '', lookup_prefix]
        (delete_session be k session_id sync_context)
   \<and> catches [str ''Failed to read file: '', lookup_prefix] (read_file be k session_id file_path)
   \<and> catches [str ''Failed to write file: '', lookup_prefix]
        (write_file be k session_id file_path content)
   \<and> catches [str ''Failed to list directory: '', lookup_prefix]
        (list_directory be k session_id directory_path)
   \<and> catches [str ''Code execution failed: '', lookup_prefix]
        (run_code be k session_id code language)
   \<and> catches [str ''Browser initialization failed: '', lookup_prefix]
        (browser_initialize be k session_id)
   \<and> catches [str ''Failed to get app list: '', lookup_prefix]
        (get_installed_apps be k session_id start_menu desktop ignore_system_apps)
   \<and> catches [str ''Failed to list windows: '', lookup_prefix] (list_windows be k session_id)
   \<and> (\<forall>out. list_sessions be k w = Some out \<longrightarrow>
          (\<exists>r w' ev. out = (Inr r, w') \<and> trace w' = trace w @ ev
             \<and> (\<forall>c e. (c, Some e) \<in> set ev
                   \<longrightarrow> r = failure (str ''Failed to list sessions: '' @ exn_str e))))
   \<and> (\<forall>page ids wn e w'.
          reaches be k w (page, ids, wn)
          \<and> client_call be k (ListSessions dify_labels page 100) wn = (Inl e, w')
          \<longrightarrow> list_sessions be k w
                = Some (Inr (failure (str ''Failed to list sessions: '' @ exn_str e)), w'))"
proof -
  have a: "\<exists>r w' ev. out = (Inr r, w') \<and> trace w' = trace w @ ev
             \<and> (\<forall>c e. (c, Some e) \<in> set ev
                   \<longrightarrow> r = failure (str ''Failed to list sessions: '' @ exn_str e))"
    if "list_sessions be k w = Some out" for out
    using list_sessions_exit [OF that] by blast
  have b: "list_sessions be k w
             = Some (Inr (failure (str ''Failed to list sessions: '' @ exn_str e)), w')"
    if "reaches be k w (page, ids, wn)
        \<and> client_call be k (ListSessions dify_labels page 100) wn = (Inl e, w')"
    for page ids wn e w'
    using that list_sessions_raise_at by blast
  have a': "\<forall>out. list_sessions be k w = Some out \<longrightarrow>
          (\<exists>r w' ev. out = (Inr r, w') \<and> trace w' = trace w @ ev
             \<and> (\<forall>c e. (c, Some e) \<in> set ev
                   \<longrightarrow> r = failure (str ''Failed to list sessions: '' @ exn_str e)))"
    by (intro allI impI) (erule a)
  have b': "\<forall>page ids wn e w'.
          reaches be k w (page, ids, wn)
          \<and> client_call be k (ListSessions dify_labels page 100) wn = (Inl e, w')
          \<longrightarrow> list_sessions be k w
                = Some (Inr (failure (str ''Failed to list sessions: '' @ exn_str e)), w')"
    by (intro allI impI) (erule b)
  show ?thesis
    by (intro conjI create_session_catches get_session_info_catches
        execute_command_catches delete_session_catches read_file_catches write_file_catches
        list_directory_catches run_code_catches browser_initialize_catches
        get_installed_apps_catches list_windows_catches a' b')
qed

theorem exceptions_become_failures_witness:
  "\<exists>w'. execute_command scripted key (str ''s-1234567'') (str ''ls'') 30000
           (fresh [found, Raises (Exception (str ''boom''))])
         = (Inr (failure (str ''Command execution failed: '' @ str ''boom'')), w')
       \<and> (ExecuteCommand (PObj [(''session_id'', PStr (str ''s-1234567''))]) (str ''ls'') 30000,
            Some (Exception (str ''boom''))) \<in> set (trace w')"
proof -
  let ?m = "execute_command scripted key (str ''s-1234567'') (str ''ls'') 30000"
  let ?w = "fresh [found, Raises (Exception (str ''boom''))]"
  let ?c = "ExecuteCommand (PObj [(''session_id'', PStr (str ''s-1234567''))]) (str ''ls'') 30000"
  let ?P = "\<lambda>w. \<exists>r w' ev. ?m w = (Inr r, w') \<and> trace w' = trace w @ ev
              \<and> (\<forall>c e. (c, Some e) \<in> set ev
                    \<longrightarrow> (\<exists>p \<in> set [str ''Command execution failed: '', lookup_prefix].
                           r = failure (p @ exn_str e)))"
  have "catches [str ''Command execution failed: '', lookup_prefix] ?m"
    by (rule exceptions_become_failures [THEN conjunct2, THEN conjunct2, THEN conjunct1])
  then have "\<forall>w. ?P w"
    unfolding catches_def .
  then have "?P ?w"
    by (rule spec)
  then obtain r w' ev where run: "?m ?w = (Inr r, w')" and tr: "trace w' = trace ?w @ ev"
    and caught: "\<forall>c e. (c, Some e) \<in> set ev
        \<longrightarrow> (\<exists>p \<in> set [str ''Command execution failed: '', lookup_prefix].
               r = failure (p @ exn_str e))"
    by (elim exE conjE)
  from run [unfolded run_command_raises]
  have w': "trace w' = [(NewAgentBay key, None), (GetSession (str ''s-1234567''), None),
                        (?c, Some (Exception (str ''boom'')))]"
    by auto
  with tr have "ev = [(NewAgentBay key, None), (GetSession (str ''s-1234567''), None),
                      (?c, Some (Exception (str ''boom'')))]"
    by (simp add: fresh_def)
  then have "(?c, Some (Exception (str ''boom''))) \<in> set ev"
    by simp
  with caught have "\<exists>p \<in> set [str ''Command execution failed: '', lookup_prefix].
      r = failure (p @ exn_str (Exception (str ''boom'')))"
    by (elim allE impE) assumption
  then have "\<not> success r"
    by (auto simp: failure_not_success)
  have "?m ?w = (Inr (failure (str ''Command execution failed: '' @ str ''boom'')), w')"
    using run [unfolded run_command_raises] run by auto
  moreover have "(?c, Some (Exception (str ''boom''))) \<in> set (trace w')"
    unfolding w' by simp
  ultimately show ?thesis
    by (intro exI [of _ w'] conjI)
qed

text \<open>
  Claim C3. When the existence lookup reports failure or absence for a session id, each
  session-acting method returns that very envelope and leaves the world as the lookup
  left it: the trace has grown only by the lookup (and the construction of the SDK
  instance), so the underlying remote action was never invoked.
\<close>

theorem absent_session_fails_fast:
  assumes "get_session_info be k session_id w = (Inr session_info, w')"
    and "\<not> success session_info"
  shows "execute_command be k session_id command timeout_ms w = (Inr session_info, w')
     \<and> delete_session be k session_id sync_context w = (Inr session_info, w')
     \<and> read_file be k session_id file_path w = (Inr session_info, w')
     \<and> write_file be k session_id file_path content w = (Inr session_info, w')
     \<and> list_directory be k session_id directory_path w = (Inr session_info, w')
     \<and> run_code be k session_id code language w = (Inr session_info, w')
     \<and> browser_initialize be k session_id w = (Inr session_info, w')
     \<and> get_installed_apps be k session_id start_menu desktop ignore_system_apps w
         = (Inr session_info, w')
     \<and> list_windows be k session_id w = (Inr session_info, w')
     \<and> (\<exists>ev. trace w' = trace w @ ev
           \<and> (\<forall>c out. (c, out) \<in> set ev \<longrightarrow> c = NewAgentBay k \<or> c = GetSession session_id))"
proof -
  have guard: "try_except (py_bind (get_session_info be k session_id) (\<lambda>info.
                  if \<not> success info then py_return info else rest info)) h w
               = (Inr session_info, w')" for rest h
    using assms by (simp add: try_except_def py_bind_def py_return_def)
  from calls_only_get_session_info [of k session_id be, unfolded calls_only_def] assms(1)
  have "\<exists>ev. trace w' = trace w @ ev
          \<and> (\<forall>c out. (c, out) \<in> set ev \<longrightarrow> c = NewAgentBay k \<or> c = GetSession session_id)"
    by blast
  then show ?thesis
    unfolding execute_command_def delete_session_def read_file_def write_file_def
      list_directory_def run_code_def browser_initialize_def get_installed_apps_def
      list_windows_def
    by (simp only: guard simp_thms)
qed

theorem absent_session_fails_fast_witness:
  "\<exists>r w'. get_session_info scripted key (str ''s-1234567'') (fresh [Returns (ok_result [])])
            = (Inr r, w')
     \<and> \<not> success r
     \<and> read_file scripted key (str ''s-1234567'') (str ''/tmp/a'') (fresh [Returns (ok_result [])])
         = (Inr r, w')
     \<and> trace w' = [(NewAgentBay key, None), (GetSession (str ''s-1234567''), None)]"
proof -
  let ?r = "failure (str ''Session '' @ str ''s-1234567''
                      @ str '' does not exist or is inaccessible'')"
  let ?w' = "\<lparr>remote_state = [], client_built = True,
              trace = [(NewAgentBay key, None), (GetSession (str ''s-1234567''), None)]\<rparr>
             :: answer list world"
  have absent: "\<not> success ?r"
    by (simp add: failure_not_success)
  from absent_session_fails_fast [OF run_lookup_absent absent]
  have "read_file scripted key (str ''s-1234567'') (str ''/tmp/a'') (fresh [Returns (ok_result [])])
          = (Inr ?r, ?w')"
    by blast
  with run_lookup_absent absent show ?thesis
    by (intro exI [of _ ?r] exI [of _ ?w']) simp
qed

section \<open>Pagination, the ownership label, the browser endpoint\<close>

lemma client_call_returned:
  assumes "client_call be k c w = (Inr x, w')"
  shows "\<exists>pre. trace w' = trace w @ pre @ [(c, None)]
           \<and> (pre = [] \<or> pre = [(NewAgentBay k, None)])"
proof (cases "client_built w")
  case True
  with assms show ?thesis
    by (auto simp: client_call_def client_def py_bind_def remote_def record_call_def raised_def)
next
  case False
  obtain r s where new: "sdk_new be k (remote_state w) = (r, s)"
    by (cases "sdk_new be k (remote_state w)")
  show ?thesis
  proof (cases r)
    case (Inl e)
    with assms False new show ?thesis
      by (simp add: client_call_def client_def py_bind_def record_call_def)
  next
    case (Inr u)
    with assms False new show ?thesis
      by (auto simp: client_call_def client_def py_bind_def remote_def record_call_def raised_def)
  qed
qed

lemma page_step_page:
  assumes "page_of result ids reported"
  shows "page_step result gathered
           = Inr (int (length (gathered @ ids)) \<ge> reported \<or> ids = [], gathered @ ids)"
proof (cases "ids = []")
  case True
  with assms show ?thesis
    by (simp add: page_of_def page_step_def hasattr_def getattr_def getattr_default_def
        and_then_def)
next
  case False
  with assms show ?thesis
    by (simp add: page_of_def page_step_def hasattr_def getattr_def getattr_default_def
        and_then_def)
qed

lemma list_pages_page:
  assumes "client_call be k (ListSessions dify_labels page 100) w = (Inr result, w')"
    and "page_of result ids reported"
  shows "list_pages be k page gathered w
           = (if int (length (gathered @ ids)) \<ge> reported \<or> ids = []
              then Some (Inr (Inr (gathered @ ids)), w')
              else list_pages be k (page + 1) (gathered @ ids) w')"
proof -
  from assms(2) have ok: "r_success result"
    by (simp add: page_of_def)
  show ?thesis
    by (subst list_pages.simps) (simp add: assms(1) ok page_step_page [OF assms(2)])
qed

lemma page_requests_of_call:
  assumes "client_call be k (ListSessions labels page limit) w = (Inr x, w')"
  shows "\<exists>ev. trace w' = trace w @ ev \<and> length (filter is_page_request ev) = 1"
proof -
  from client_call_returned [OF assms] obtain pre
    where "trace w' = trace w @ pre @ [(ListSessions labels page limit, None)]"
      "pre = [] \<or> pre = [(NewAgentBay k, None)]"
    by blast
  then show ?thesis
    by (intro exI [of _ "pre @ [(ListSessions labels page limit, None)]"]) auto
qed

text \<open>
  Claim C4. When the backend answers the first three page requests with pages of 100,
  100 and 50 ids, each reporting a total of 250, \<open>list_sessions\<close> returns a successful
  envelope with count 250 after exactly 3 page requests. In general, after a successful
  page the loop leaves at once when the ids gathered reach the reported total or the
  page is empty, and otherwise asks for the next page.
\<close>

theorem list_sessions_pagination:
  "(client_call be k (ListSessions dify_labels 1 100) w = (Inr r1, w1)
      \<and> page_of r1 ids1 250 \<and> length ids1 = 100
      \<and> client_call be k (ListSessions dify_labels 2 100) w1 = (Inr r2, w2)
      \<and> page_of r2 ids2 250 \<and> length ids2 = 100
      \<and> client_call be k (ListSessions dify_labels 3 100) w2 = (Inr r3, w3)
      \<and> page_of r3 ids3 250 \<and> length ids3 = 50
    \<longrightarrow> list_sessions be k w
          = Some (Inr (SimpleResult True
                    (PDict [(''sessions'', PList (map session_entry (ids1 @ ids2 @ ids3))),
                            (''count'', PInt 250)]) None), w3)
        \<and> length (filter is_page_request (drop (length (trace w)) (trace w3))) = 3)
   \<and> (client_call be k (ListSessions dify_labels page 100) wa = (Inr result, wb)
      \<and> page_of result ids reported
    \<longrightarrow> list_pages be k page gathered wa
          = (if int (length (gathered @ ids)) \<ge> reported \<or> ids = []
             then Some (Inr (Inr (gathered @ ids)), wb)
             else list_pages be k (page + 1) (gathered @ ids) wb))"
proof (intro conjI impI)
  assume a: "client_call be k (ListSessions dify_labels 1 100) w = (Inr r1, w1)
      \<and> page_of r1 ids1 250 \<and> length ids1 = 100
      \<and> client_call be k (ListSessions dify_labels 2 100) w1 = (Inr r2, w2)
      \<and> page_of r2 ids2 250 \<and> length ids2 = 100
      \<and> client_call be k (ListSessions dify_labels 3 100) w2 = (Inr r3, w3)
      \<and> page_of r3 ids3 250 \<and> length ids3 = 50"
  then have c1: "client_call be k (ListSessions dify_labels 1 100) w = (Inr r1, w1)"
    and p1: "page_of r1 ids1 250" and l1: "length ids1 = 100"
    and c2: "client_call be k (ListSessions dify_labels 2 100) w1 = (Inr r2, w2)"
    and p2: "page_of r2 ids2 250" and l2: "length ids2 = 100"
    and c3: "client_call be k (ListSessions dify_labels 3 100) w2 = (Inr r3, w3)"
    and p3: "page_of r3 ids3 250" and l3: "length ids3 = 50"
    by simp_all
  have ne: "ids1 \<noteq> []" "ids2 \<noteq> []"
    using l1 l2 by auto
  have s3: "list_pages be k 3 (ids1 @ ids2) w2 = Some (Inr (Inr (ids1 @ ids2 @ ids3)), w3)"
    using list_pages_page [OF c3 p3, of "ids1 @ ids2"] l1 l2 l3 by simp
  have s2: "list_pages be k 2 ids1 w1 = list_pages be k 3 (ids1 @ ids2) w2"
    using list_pages_page [OF c2 p2, of ids1] l1 l2 ne by simp
  have s1: "list_pages be k 1 [] w = list_pages be k 2 ids1 w1"
    using list_pages_page [OF c1 p1, of "[]"] l1 ne by simp
  have "list_pages be k 1 [] w = Some (Inr (Inr (ids1 @ ids2 @ ids3)), w3)"
    using s1 s2 s3 by simp
  then show "list_sessions be k w
          = Some (Inr (SimpleResult True
                    (PDict [(''sessions'', PList (map session_entry (ids1 @ ids2 @ ids3))),
                            (''count'', PInt 250)]) None), w3)"
    using l1 l2 l3 by (simp add: list_sessions_def)
  from page_requests_of_call [OF c1] obtain ev1
    where ev1: "trace w1 = trace w @ ev1" "length (filter is_page_request ev1) = 1"
    by blast
  from page_requests_of_call [OF c2] obtain ev2
    where ev2: "trace w2 = trace w1 @ ev2" "length (filter is_page_request ev2) = 1"
    by blast
  from page_requests_of_call [OF c3] obtain ev3
    where ev3: "trace w3 = trace w2 @ ev3" "length (filter is_page_request ev3) = 1"
    by blast
  have "drop (length (trace w)) (trace w3) = ev1 @ ev2 @ ev3"
    using ev1(1) ev2(1) ev3(1) by simp
  then show "length (filter is_page_request (drop (length (trace w)) (trace w3))) = 3"
    using ev1(2) ev2(2) ev3(2) by simp
next
  assume "client_call be k (ListSessions dify_labels page 100) wa = (Inr result, wb)
      \<and> page_of result ids reported"
  then show "list_pages be k page gathered wa
          = (if int (length (gathered @ ids)) \<ge> reported \<or> ids = []
             then Some (Inr (Inr (gathered @ ids)), wb)
             else list_pages be k (page + 1) (gathered @ ids) wb)"
    using list_pages_page by blast
qed

theorem list_sessions_pagination_witness:
  "list_sessions scripted key
     (fresh [Returns (page_answer 100), Returns (page_answer 100), Returns (page_answer 50)])
   = Some (Inr (SimpleResult True
             (PDict [(''sessions'', PList (map session_entry
                        (replicate 100 (PStr (str ''s-1234567''))
                         @ replicate 100 (PStr (str ''s-1234567''))
                         @ replicate 50 (PStr (str ''s-1234567''))))),
                     (''count'', PInt 250)]) None),
           \<lparr>remote_state = [], client_built = True,
            trace = [(NewAgentBay key, None), (ListSessions dify_labels 1 100, None),
                     (ListSessions dify_labels 2 100, None),
                     (ListSessions dify_labels 3 100, None)]\<rparr>)
   \<and> length (filter is_page_request
        [(NewAgentBay key, None), (ListSessions dify_labels 1 100, None),
         (ListSessions dify_labels 2 100, None), (ListSessions dify_labels 3 100, None)]) = 3"
proof -
  let ?w = "fresh [Returns (page_answer 100), Returns (page_answer 100), Returns (page_answer 50)]"
  let ?w1 = "\<lparr>remote_state = [Returns (page_answer 100), Returns (page_answer 50)],
              client_built = True,
              trace = [(NewAgentBay key, None), (ListSessions dify_labels 1 100, None)]\<rparr>"
  let ?w2 = "\<lparr>remote_state = [Returns (page_answer 50)], client_built = True,
              trace = [(NewAgentBay key, None), (ListSessions dify_labels 1 100, None),
                       (ListSessions dify_labels 2 100, None)]\<rparr>"
  let ?w3 = "\<lparr>remote_state = [], client_built = True,
              trace = [(NewAgentBay key, None), (ListSessions dify_labels 1 100, None),
                       (ListSessions dify_labels 2 100, None),
                       (ListSessions dify_labels 3 100, None)]\<rparr> :: answer list world"
  have page: "page_of (page_answer n) (replicate n (PStr (str ''s-1234567''))) 250" for n
    by (simp add: page_of_def page_answer_def ok_result_def)
  have c1: "client_call scripted key (ListSessions dify_labels 1 100) ?w
              = (Inr (page_answer 100), ?w1)"
    by (simp add: client_call_def client_def py_bind_def remote_def record_call_def raised_def
        scripted_def fresh_def)
  have c2: "client_call scripted key (ListSessions dify_labels 2 100) ?w1
              = (Inr (page_answer 100), ?w2)"
    by (simp add: client_call_def client_def py_bind_def remote_def record_call_def raised_def
        scripted_def)
  have c3: "client_call scripted key (ListSessions dify_labels 3 100) ?w2
              = (Inr (page_answer 50), ?w3)"
    by (simp add: client_call_def client_def py_bind_def remote_def record_call_def raised_def
        scripted_def)
  have h: "client_call scripted key (ListSessions dify_labels 1 100) ?w
             = (Inr (page_answer 100), ?w1)
      \<and> page_of (page_answer 100) (replicate 100 (PStr (str ''s-1234567''))) 250
      \<and> length (replicate 100 (PStr (str ''s-1234567''))) = 100
      \<and> client_call scripted key (ListSessions dify_labels 2 100) ?w1
          = (Inr (page_answer 100), ?w2)
      \<and> page_of (page_answer 100) (replicate 100 (PStr (str ''s-1234567''))) 250
      \<and> length (replicate 100 (PStr (str ''s-1234567''))) = 100
      \<and> client_call scripted key (ListSessions dify_labels 3 100) ?w2
          = (Inr (page_answer 50), ?w3)
      \<and> page_of (page_answer 50) (replicate 50 (PStr (str ''s-1234567''))) 250
      \<and> length (replicate 50 (PStr (str ''s-1234567''))) = 50"
    using c1 c2 c3 page by simp
  from list_sessions_pagination [THEN conjunct1, rule_format, OF h]
  show ?thesis
    by (simp add: fresh_def)
qed

section \<open>The ownership label\<close>

lemma create_session_labelled:
  assumes "create_session be k image_id w = (Inr r, w')" and "success r"
  shows "\<exists>ev. trace w' = trace w @ ev \<and> (Create image_id dify_labels, None) \<in> set ev"
proof -
  obtain res w1 where cc: "client_call be k (Create image_id dify_labels) w = (res, w1)"
    by (cases "client_call be k (Create image_id dify_labels) w")
  show ?thesis
  proof (cases res)
    case (Inl e)
    with cc have "create_session be k image_id w
        = (Inr (case e of AgentBayError m \<Rightarrow> failure (str ''AgentBay API error: '' @ m)
                | _ \<Rightarrow> failure (str ''Unknown error: '' @ exn_str e)), w1)"
      by (cases e) (simp_all add: create_session_def try_except_def py_bind_def py_return_def)
    with assms have False
      by (cases e) (auto simp: failure_not_success)
    then show ?thesis ..
  next
    case (Inr result)
    with cc have "snd (create_session be k image_id w) = w1"
      by (auto simp: create_session_def try_except_def py_bind_def py_return_def py_raise_def
          pure_def split: sum.splits exn.splits)
    with assms(1) have "w' = w1"
      by simp
    moreover from client_call_returned [OF cc [unfolded Inr]] obtain pre
      where "trace w1 = trace w @ pre @ [(Create image_id dify_labels, None)]"
      by blast
    ultimately show ?thesis
      by (intro exI [of _ "pre @ [(Create image_id dify_labels, None)]"]) simp
  qed
qed

text \<open>
  Claim C6, as stated, fails on the label itself: the label attached is
  \<open>{"dify_plugin": "true"}\<close>, not \<open>{"plugin": "true"}\<close>.
\<close>

theorem ownership_label_counterexample:
  "create_session scripted key (str ''linux_latest'') (fresh [created])
   = (Inr (SimpleResult True
        (PDict [(''session_id'', PStr (str ''s-1234567'')),
                (''image_id'', PStr (str ''linux_latest'')),
                (''status'', PStr (str ''created'')),
                (''request_id'', PStr (str ''req-1'')),
                (''resource_url'', PStr (str ''https://example.invalid/s''))]) None),
      \<lparr>remote_state = [], client_built = True,
       trace = [(NewAgentBay key, None),
                (Create (str ''linux_latest'') [(str ''dify_plugin'', str ''true'')], None)]\<rparr>)
   \<and> Create (str ''linux_latest'') [(str ''dify_plugin'', str ''true'')]
       \<noteq> Create (str ''linux_latest'') [(str ''plugin'', str ''true'')]"
  by (simp add: create_session_def run_defs created_def dify_labels_def)
     (simp add: str_def)

text \<open>
  Claim C6, amended. The fixed label is \<open>{"dify_plugin": "true"}\<close>. Whatever the image
  id, \<open>create_session\<close> issues no call but the construction of the SDK instance and a
  creation request carrying that label, and a successful envelope comes from such a
  request that returned. Every call of a \<open>list_sessions\<close> run is the construction of the
  SDK instance or a page request filtered by the same label, with limit 100.
\<close>

theorem ownership_label:
  "dify_labels = [(str ''dify_plugin'', str ''true'')]
   \<and> (\<exists>r w' ev. create_session be k image_id w = (Inr r, w') \<and> trace w' = trace w @ ev
         \<and> (\<forall>c out. (c, out) \<in> set ev \<longrightarrow> c = NewAgentBay k \<or> c = Create image_id dify_labels)
         \<and> (success r \<longrightarrow> (Create image_id dify_labels, None) \<in> set ev))
   \<and> (\<forall>out. list_sessions be k w = Some out \<longrightarrow>
         (\<exists>ev. trace (snd out) = trace w @ ev
            \<and> (\<forall>c res. (c, res) \<in> set ev \<longrightarrow>
                  c = NewAgentBay k \<or> (\<exists>page. c = ListSessions dify_labels page 100))))"
proof (intro conjI allI impI)
  show "dify_labels = [(str ''dify_plugin'', str ''true'')]"
    by (simp add: dify_labels_def)
next
  from create_session_well_formed [of be k image_id, unfolded returns_well_formed_def]
  obtain r w' where run: "create_session be k image_id w = (Inr r, w')"
    by blast
  from calls_only_create_session [of k image_id be, unfolded calls_only_def] run
  have "\<exists>ev. trace w' = trace w @ ev
          \<and> (\<forall>c out. (c, out) \<in> set ev \<longrightarrow> c = NewAgentBay k \<or> c = Create image_id dify_labels)"
    by blast
  then obtain ev where ev: "trace w' = trace w @ ev"
    "\<forall>c out. (c, out) \<in> set ev \<longrightarrow> c = NewAgentBay k \<or> c = Create image_id dify_labels"
    by blast
  have "(Create image_id dify_labels, None) \<in> set ev" if "success r"
  proof -
    from create_session_labelled [OF run that] obtain ev'
      where "trace w' = trace w @ ev'" "(Create image_id dify_labels, None) \<in> set ev'"
      by blast
    with ev(1) show ?thesis
      by simp
  qed
  with run ev show "\<exists>r w' ev. create_session be k image_id w = (Inr r, w')
         \<and> trace w' = trace w @ ev
         \<and> (\<forall>c out. (c, out) \<in> set ev \<longrightarrow> c = NewAgentBay k \<or> c = Create image_id dify_labels)
         \<and> (success r \<longrightarrow> (Create image_id dify_labels, None) \<in> set ev)"
    by blast
next
  fix out
  assume "list_sessions be k w = Some out"
  from list_sessions_exit [OF this]
  show "\<exists>ev. trace (snd out) = trace w @ ev
            \<and> (\<forall>c res. (c, res) \<in> set ev \<longrightarrow>
                  c = NewAgentBay k \<or> (\<exists>page. c = ListSessions dify_labels page 100))"
    by auto
qed

theorem ownership_label_witness:
  "\<exists>r w'. create_session scripted key (str ''browser_latest'') (fresh [created]) = (Inr r, w')
      \<and> success r
      \<and> (Create (str ''browser_latest'') [(str ''dify_plugin'', str ''true'')], None)
          \<in> set (trace w')"
proof -
  let ?w = "fresh [created]"
  from ownership_label [of scripted key "str ''browser_latest''" ?w]
  obtain r w' ev where run: "create_session scripted key (str ''browser_latest'') ?w = (Inr r, w')"
    and tr: "trace w' = trace ?w @ ev"
    and made: "success r \<longrightarrow> (Create (str ''browser_latest'') dify_labels, None) \<in> set ev"
    and label: "dify_labels = [(str ''dify_plugin'', str ''true'')]"
    by blast
  have "create_session scripted key (str ''browser_latest'') ?w
          = (Inr (SimpleResult True
               (PDict [(''session_id'', PStr (str ''s-1234567'')),
                       (''image_id'', PStr (str ''browser_latest'')),
                       (''status'', PStr (str ''created'')),
                       (''request_id'', PStr (str ''req-1'')),
                       (''resource_url'', PStr (str ''https://example.invalid/s''))]) None),
             \<lparr>remote_state = [], client_built = True,
              trace = [(NewAgentBay key, None), (Create (str ''browser_latest'') dify_labels, None)]\<rparr>)"
    by (simp add: create_session_def run_defs created_def)
  with run have "success r"
    by (auto simp: SimpleResult_def)
  with made tr label run show ?thesis
    by (intro exI [of _ r] exI [of _ w']) simp
qed

section \<open>The browser endpoint\<close>

text \<open>
  Claim C7, as stated, fails: \<open>browser_initialize\<close> does not look at the endpoint it
  retrieved. When \<open>initialize\<close> returns true and \<open>get_endpoint_url\<close> returns the empty
  string, the method reports success with that empty endpoint in its data.
\<close>

theorem browser_initialize_empty_endpoint_counterexample:
  "browser_initialize scripted key (str ''s-1234567'')
     (fresh [found, handle, Gives (PBool True), Gives (PStr [])])
   = (Inr (SimpleResult True
        (PDict [(''initialized'', PBool True), (''endpoint_url'', PStr [])]) None),
      \<lparr>remote_state = [], client_built = True,
       trace = [(NewAgentBay key, None), (GetSession (str ''s-1234567''), None),
                (Get (str ''s-1234567''), None),
                (BrowserInitialize (PObj [(''session_id'', PStr (str ''s-1234567''))]), None),
                (GetEndpointUrl (PObj [(''session_id'', PStr (str ''s-1234567''))]), None)]\<rparr>)
   \<and> \<not> truthy (PStr [])"
  by (simp add: browser_initialize_def run_defs)

text \<open>
  Claim C7, amended. Once the existence lookup has succeeded and the session handle has
  been fetched, \<open>browser_initialize\<close> returns the failure "Browser initialization failed"
  when \<open>initialize\<close> returns a false value, the failure prefixed "Browser initialization
  failed: " when \<open>get_endpoint_url\<close> raises, and otherwise success with the value that
  \<open>get_endpoint_url\<close> returned under \<open>endpoint_url\<close>, whatever that value is.
\<close>

theorem browser_initialize_outcome:
  assumes "get_session_info be k session_id w = (Inr session_info, w1)"
    and "success session_info"
    and "get_session_handle be k session_id w1 = (Inr session, w2)"
    and "session_value be session ''browser'' (BrowserInitialize session) w2 = (Inr result, w3)"
  shows "(\<not> truthy result \<longrightarrow>
            browser_initialize be k session_id w
              = (Inr (failure (str ''Browser initialization failed'')), w3))
       \<and> (truthy result \<longrightarrow>
            (\<forall>endpoint_url w4.
               session_value be session ''browser'' (GetEndpointUrl session) w3
                 = (Inr endpoint_url, w4)
               \<longrightarrow> browser_initialize be k session_id w
                     = (Inr (SimpleResult True
                          (PDict [(''initialized'', PBool True),
                                  (''endpoint_url'', endpoint_url)]) None), w4))
            \<and> (\<forall>e w4.
               session_value be session ''browser'' (GetEndpointUrl session) w3 = (Inl e, w4)
               \<longrightarrow> browser_initialize be k session_id w
                     = (Inr (failure (str ''Browser initialization failed: '' @ exn_str e)),
                        w4)))"
  using assms
  by (simp add: browser_initialize_def try_except_def py_bind_def py_return_def)

theorem browser_initialize_outcome_witness:
  "browser_initialize scripted key (str ''s-1234567'')
     (fresh [found, handle, Gives (PBool True), Gives (PStr (str ''wss://example.invalid/cdp''))])
   = (Inr (SimpleResult True
        (PDict [(''initialized'', PBool True),
                (''endpoint_url'', PStr (str ''wss://example.invalid/cdp''))]) None),
      \<lparr>remote_state = [], client_built = True,
       trace = [(NewAgentBay key, None), (GetSession (str ''s-1234567''), None),
                (Get (str ''s-1234567''), None),
                (BrowserInitialize (PObj [(''session_id'', PStr (str ''s-1234567''))]), None),
                (GetEndpointUrl (PObj [(''session_id'', PStr (str ''s-1234567''))]), None)]\<rparr>)"
proof -
  let ?sid = "str ''s-1234567''"
  let ?url = "PStr (str ''wss://example.invalid/cdp'')"
  let ?s = "PObj [(''session_id'', PStr ?sid)]"
  let ?w = "fresh [found, handle, Gives (PBool True), Gives ?url]"
  let ?w1 = "\<lparr>remote_state = [handle, Gives (PBool True), Gives ?url], client_built = True,
              trace = [(NewAgentBay key, None), (GetSession ?sid, None)]\<rparr>"
  let ?w2 = "\<lparr>remote_state = [Gives (PBool True), Gives ?url], client_built = True,
              trace = [(NewAgentBay key, None), (GetSession ?sid, None), (Get ?sid, None)]\<rparr>"
  let ?w3 = "\<lparr>remote_state = [Gives ?url], client_built = True,
              trace = [(NewAgentBay key, None), (GetSession ?sid, None), (Get ?sid, None),
                       (BrowserInitialize ?s, None)]\<rparr>"
  let ?w4 = "\<lparr>remote_state = [], client_built = True,
              trace = [(NewAgentBay key, None), (GetSession ?sid, None), (Get ?sid, None),
                       (BrowserInitialize ?s, None), (GetEndpointUrl ?s, None)]\<rparr>
             :: answer list world"
  let ?info = "SimpleResult True (PObj [(''status'', PStr (str ''RUNNING''))]) None"
  have a: "get_session_info scripted key ?sid ?w = (Inr ?info, ?w1)"
    by (simp add: run_defs)
  have b: "success ?info"
    by (simp add: SimpleResult_def)
  have c: "get_session_handle scripted key ?sid ?w1 = (Inr ?s, ?w2)"
    by (simp add: run_defs)
  have d: "session_value scripted ?s ''browser'' (BrowserInitialize ?s) ?w2
             = (Inr (PBool True), ?w3)"
    by (simp add: run_defs)
  have e: "session_value scripted ?s ''browser'' (GetEndpointUrl ?s) ?w3 = (Inr ?url, ?w4)"
    by (simp add: run_defs)
  have t: "truthy (PBool True)"
    by simp
  from browser_initialize_outcome [OF a b c d, THEN conjunct2, rule_format, OF t,
      THEN conjunct1, rule_format, OF e]
  show ?thesis .
qed

section \<open>The screenshot echo\<close>

lemma str_eq_iff: "str a = str b \<longleftrightarrow> a = b"
  unfolding str_def by (rule inj_map_eq_map) (auto intro: injI)

lemmas report_defs =
  report_def yielded_def build_success_message_def build_error_message_def
  SUPPORTED_ACTIONS_def blob_messages_def response_data_def set_action_variables_def
  dict_update_def dict_set_def dict_get_def or_else_def and_then_def

lemma shot_report:
  "report wd (str ''screenshot'') session_id operation_time
     (BrowserActionResult True
        (PDict [(''screenshot_data'', PBytes bs), (''format'', PStr (str ''png'')),
                (''full_page'', PBool full_page), (''size'', PInt (int (length bs)))]) None)
   = TextMessage (success_text wd (str ''screenshot'') session_id operation_time
                    [PInt (if bs = [] then 0 else int (length bs))])
     # (if bs = [] then []
        else [BlobMessage (PBytes bs) [(''mime_type'', PStr (str ''image/png'')),
                                       (''filename'', PStr (str ''screenshot.png''))]])
     @ [JsonMessage [(''session_id'', PStr session_id), (''action'', PStr (str ''screenshot'')),
                     (''success'', PBool True), (''operation_time'', PFloat operation_time),
                     (''format'', PStr (str ''png'')), (''full_page'', PBool full_page),
                     (''size'', PInt (int (length bs)))],
        VariableMessage ''browser_action'' (PStr (str ''screenshot'')),
        VariableMessage ''browser_success'' (PStr (str ''true''))]"
  by (simp add: report_defs BrowserActionResult_def str_eq_iff)

lemma failed_report:
  "\<not> success r \<Longrightarrow>
   report wd (str ''screenshot'') session_id operation_time r
   = [TextMessage (error_text wd (str ''screenshot'') session_id operation_time (error r)),
      JsonMessage [(''session_id'', PStr session_id), (''action'', PStr (str ''screenshot'')),
                   (''success'', PBool False),
                   (''error'', (case error r of None \<Rightarrow> PNone | Some m \<Rightarrow> PStr m)),
                   (''operation_time'', PFloat operation_time)],
      VariableMessage ''browser_success'' (PStr (str ''false''))]"
  by (simp add: report_defs str_eq_iff)

lemma failed_report_no_bytes:
  assumes "\<not> success r"
  shows "\<forall>m \<in> set (report wd (str ''screenshot'') session_id operation_time r). \<not> inlines_bytes m"
  unfolding failed_report [OF assms]
  by (cases "error r") simp_all

lemma screenshot_cases:
  "(\<not> success (screenshot drv endpoint_url has_page full_page))
   \<or> (\<exists>bs. page_screenshot drv full_page = Inr bs
         \<and> screenshot drv endpoint_url has_page full_page
             = BrowserActionResult True
                 (PDict [(''screenshot_data'', PBytes bs), (''format'', PStr (str ''png'')),
                         (''full_page'', PBool full_page), (''size'', PInt (int (length bs)))])
                 None)"
  by (cases "page_screenshot drv full_page")
     (auto simp: screenshot_def BrowserActionResult_def)

lemma run_browser_action_passes_on:
  assumes "run_browser_action playwright_available step close = Done t r"
  shows "(\<exists>t0. step = Done t0 (Inr r)) \<or> \<not> success r"
proof (cases step)
  case Never
  with assms show ?thesis
    by (auto simp: run_browser_action_def run_coroutine_def future_result_def executor_exit_def
        BrowserActionResult_def split: if_splits)
next
  case (Done t0 outcome)
  show ?thesis
  proof (cases close)
    case Never
    with assms Done show ?thesis
      by (auto simp: run_browser_action_def run_coroutine_def future_result_def
          executor_exit_def BrowserActionResult_def split: if_splits)
  next
    case (Done t1 shut)
    with assms \<open>step = Done t0 outcome\<close> show ?thesis
      by (cases outcome)
         (auto simp: run_browser_action_def run_coroutine_def future_result_def
            executor_exit_def BrowserActionResult_def split: if_splits)
  qed
qed

text \<open>
  Claim C8. Take the result of the screenshot step of the bridge, for any driver, or any
  failed envelope that the layers around the step return in its place. In what the tool
  yields for it, no message outside the blob message holds raw bytes: the JSON echo, the
  texts and the variables are free of them. When the step succeeded with image bytes
  \<open>bs\<close>, the JSON echo has no \<open>screenshot_data\<close> key and gives \<open>size\<close> as the length of \<open>bs\<close>
  and \<open>format\<close> as \<open>png\<close>, and the bytes, when there are any, are yielded in the blob
  message. The bridge hands the tool the step's own result or a failed envelope.
\<close>

theorem screenshot_echo:
  "(\<forall>m \<in> set (report wd (str ''screenshot'') session_id operation_time
                 (screenshot drv endpoint_url has_page full_page)). \<not> inlines_bytes m)
   \<and> (\<forall>bs. success (screenshot drv endpoint_url has_page full_page)
             \<and> page_screenshot drv full_page = Inr bs
        \<longrightarrow> (\<exists>echo. JsonMessage echo
                      \<in> set (report wd (str ''screenshot'') session_id operation_time
                               (screenshot drv endpoint_url has_page full_page))
                 \<and> map_of echo ''screenshot_data'' = None
                 \<and> map_of echo ''size'' = Some (PInt (int (length bs)))
                 \<and> map_of echo ''format'' = Some (PStr (str ''png'')))
            \<and> (bs \<noteq> [] \<longrightarrow>
                  BlobMessage (PBytes bs) [(''mime_type'', PStr (str ''image/png'')),
                                           (''filename'', PStr (str ''screenshot.png''))]
                    \<in> set (report wd (str ''screenshot'') session_id operation_time
                             (screenshot drv endpoint_url has_page full_page))))
   \<and> (\<forall>r. \<not> success r
        \<longrightarrow> (\<forall>m \<in> set (report wd (str ''screenshot'') session_id operation_time r).
               \<not> inlines_bytes m))
   \<and> (\<forall>t r. run_browser_action playwright_available step close = Done t r
        \<longrightarrow> (\<exists>t0. step = Done t0 (Inr r)) \<or> \<not> success r)"
proof (intro conjI allI impI)
  let ?r = "screenshot drv endpoint_url has_page full_page"
  let ?msgs = "report wd (str ''screenshot'') session_id operation_time ?r"
  show "\<forall>m \<in> set ?msgs. \<not> inlines_bytes m"
  proof (cases "success ?r")
    case False
    then show ?thesis
      by (rule failed_report_no_bytes)
  next
    case True
    with screenshot_cases [of drv endpoint_url has_page full_page] obtain bs
      where "?r = BrowserActionResult True
                 (PDict [(''screenshot_data'', PBytes bs), (''format'', PStr (str ''png'')),
                         (''full_page'', PBool full_page), (''size'', PInt (int (length bs)))])
                 None"
      by blast
    then show ?thesis
      by (simp add: shot_report)
  qed
next
  fix bs
  let ?r = "screenshot drv endpoint_url has_page full_page"
  let ?msgs = "report wd (str ''screenshot'') session_id operation_time ?r"
  assume a: "success ?r \<and> page_screenshot drv full_page = Inr bs"
  with screenshot_cases [of drv endpoint_url has_page full_page]
  have r: "?r = BrowserActionResult True
                 (PDict [(''screenshot_data'', PBytes bs), (''format'', PStr (str ''png'')),
                         (''full_page'', PBool full_page), (''size'', PInt (int (length bs)))])
                 None"
    by auto
  let ?echo = "[(''session_id'', PStr session_id), (''action'', PStr (str ''screenshot'')),
               (''success'', PBool True), (''operation_time'', PFloat operation_time),
               (''format'', PStr (str ''png'')), (''full_page'', PBool full_page),
               (''size'', PInt (int (length bs)))]"
  have "JsonMessage ?echo \<in> set ?msgs"
    unfolding r shot_report by simp
  moreover have "map_of ?echo ''screenshot_data'' = None"
    "map_of ?echo ''size'' = Some (PInt (int (length bs)))"
    "map_of ?echo ''format'' = Some (PStr (str ''png''))"
    by simp_all
  ultimately show "\<exists>echo. JsonMessage echo \<in> set ?msgs
                 \<and> map_of echo ''screenshot_data'' = None
                 \<and> map_of echo ''size'' = Some (PInt (int (length bs)))
                 \<and> map_of echo ''format'' = Some (PStr (str ''png''))"
    by blast
  show "BlobMessage (PBytes bs) [(''mime_type'', PStr (str ''image/png'')),
                                 (''filename'', PStr (str ''screenshot.png''))] \<in> set ?msgs"
    if "bs \<noteq> []"
    unfolding r shot_report using that by simp
next
  fix r :: simple_result
  assume "\<not> success r"
  then show "\<forall>m \<in> set (report wd (str ''screenshot'') session_id operation_time r).
               \<not> inlines_bytes m"
    by (rule failed_report_no_bytes)
next
  fix t r
  assume "run_browser_action playwright_available step close = Done t r"
  then show "(\<exists>t0. step = Done t0 (Inr r)) \<or> \<not> success r"
    by (rule run_browser_action_passes_on)
qed

theorem screenshot_echo_witness:
  "success (screenshot camera (str ''wss://example.invalid/cdp'') False True)
   \<and> page_screenshot camera True = Inr [137, 80, 78, 71]
   \<and> report plain (str ''screenshot'') (str ''s-1234567'') 2 
        (screenshot camera (str ''wss://example.invalid/cdp'') False True)
      = [TextMessage (str ''ok''),
         BlobMessage (PBytes [137, 80, 78, 71])
           [(''mime_type'', PStr (str ''image/png'')), (''filename'', PStr (str ''screenshot.png''))],
         JsonMessage [(''session_id'', PStr (str ''s-1234567'')),
                      (''action'', PStr (str ''screenshot'')), (''success'', PBool True),
                      (''operation_time'', PFloat 2), (''format'', PStr (str ''png'')),
                      (''full_page'', PBool True), (''size'', PInt 4)],
         VariableMessage ''browser_action'' (PStr (str ''screenshot'')),
         VariableMessage ''browser_success'' (PStr (str ''true''))]
   \<and> \<not> inlines_bytes (JsonMessage [(''session_id'', PStr (str ''s-1234567'')),
                      (''action'', PStr (str ''screenshot'')), (''success'', PBool True),
                      (''operation_time'', PFloat 2), (''format'', PStr (str ''png'')),
                      (''full_page'', PBool True), (''size'', PInt 4)])"
proof -
  let ?r = "screenshot camera (str ''wss://example.invalid/cdp'') False True"
  let ?json = "JsonMessage [(''session_id'', PStr (str ''s-1234567'')),
                      (''action'', PStr (str ''screenshot'')), (''success'', PBool True),
                      (''operation_time'', PFloat 2), (''format'', PStr (str ''png'')),
                      (''full_page'', PBool True), (''size'', PInt 4)]"
  have r: "?r = BrowserActionResult True
                 (PDict [(''screenshot_data'', PBytes [137, 80, 78, 71]),
                         (''format'', PStr (str ''png'')), (''full_page'', PBool True),
                         (''size'', PInt (int (length [137, 80, 78, 71 :: nat])))]) None"
    by (simp add: screenshot_def camera_def connect_def BrowserActionResult_def)
  have ok: "success ?r"
    by (simp add: r BrowserActionResult_def)
  have shot: "page_screenshot camera True = Inr [137, 80, 78, 71]"
    by (simp add: camera_def)
  have msgs: "report plain (str ''screenshot'') (str ''s-1234567'') 2 ?r
      = [TextMessage (str ''ok''),
         BlobMessage (PBytes [137, 80, 78, 71])
           [(''mime_type'', PStr (str ''image/png'')), (''filename'', PStr (str ''screenshot.png''))],
         ?json,
         VariableMessage ''browser_action'' (PStr (str ''screenshot'')),
         VariableMessage ''browser_success'' (PStr (str ''true''))]"
    unfolding r shot_report by (simp add: plain_def)
  from screenshot_echo [of plain "str ''s-1234567''" 2 camera "str ''wss://example.invalid/cdp''"
      False True]
  have "\<forall>m \<in> set (report plain (str ''screenshot'') (str ''s-1234567'') 2 ?r). \<not> inlines_bytes m"
    by (rule conjunct1)
  moreover have "?json \<in> set (report plain (str ''screenshot'') (str ''s-1234567'') 2 ?r)"
    unfolding msgs by simp
  ultimately have "\<not> inlines_bytes ?json"
    by (rule bspec)
  with ok shot msgs show ?thesis
    by (intro conjI)
qed

section \<open>The bridge's timeout\<close>

text \<open>
  Claim C5 does not hold of the code. A step that never returns makes \<open>future.result\<close>
  raise \<open>TimeoutError\<close> after 60 seconds, but the exception first leaves the \<open>with\<close> block,
  whose exit waits for the worker: \<open>run_browser_action\<close> never returns. A step that takes
  90 seconds gives the failed envelope after 90 seconds, not after 60.
\<close>

theorem run_browser_action_never_returns:
  "run_browser_action True Never close = Never
   \<and> run_browser_action True (Done 90 (Inr result)) (Done 0 shut)
       = Done 90 (BrowserActionResult False PNone
                    (Some (str ''Failed to run browser operation: '')))"
  by (simp add: run_browser_action_def run_coroutine_def future_result_def executor_exit_def)

end
